theory Spec2Isabelle
  imports Main "HOL-Library.Word"
begin

section \<open>Python values, exceptions and dictionaries\<close>

text \<open>
  The values that travel in headers, query parameters and decoded JSON bodies. A Python
  \<^verbatim>\<open>dict\<close> keeps insertion order, so it is an association list (keys are distinct in
  every dictionary the code builds). Floating-point numbers are not modelled.
\<close>

datatype pyval =
    PNone
  | PBool bool
  | PInt int
  | PStr string
  | PList "pyval list"
  | PDict "(string \<times> pyval) list"

text \<open>
  The exceptions the two modules can raise or let through. \<open>UnsupportedPostLocation\<close>
  is the plain \<^verbatim>\<open>Exception("{} is not a supported post location.", ...)\<close> of
  \<^verbatim>\<open>post_post\<close>; \<open>TransportError\<close> is whatever the transport collaborator raises.
\<close>

datatype error =
    ValueError
  | KeyError
  | IndexError
  | TypeError
  | AttributeError
  | FileNotFoundError
  | JSONDecodeError
  | BadResponse
  | UnsupportedPostLocation
  | TransportError

type_synonym 'v dict = "(string \<times> 'v) list"

definition dict_keys :: "'v dict \<Rightarrow> string set" where
  "dict_keys d = fst ` set d"

definition dict_del :: "string \<Rightarrow> 'v dict \<Rightarrow> 'v dict" where
  "dict_del k d = filter (\<lambda>kv. fst kv \<noteq> k) d"

text \<open>\<^verbatim>\<open>d.pop(k)\<close>: the value and the dictionary without the key, KeyError when absent.\<close>

definition dict_pop :: "string \<Rightarrow> 'v dict \<Rightarrow> error + ('v \<times> 'v dict)" where
  "dict_pop k d = (case map_of d k of
                     None \<Rightarrow> Inl KeyError
                   | Some v \<Rightarrow> Inr (v, dict_del k d))"

text \<open>\<^verbatim>\<open>d[k] = v\<close>: an existing key keeps its position, a new key goes to the end.\<close>

fun dict_set :: "string \<Rightarrow> 'v \<Rightarrow> 'v dict \<Rightarrow> 'v dict" where
  "dict_set k v [] = [(k, v)]"
| "dict_set k v ((k', v') # d) =
     (if k' = k then (k, v) # d else (k', v') # dict_set k v d)"

text \<open>\<^verbatim>\<open>{**a, **b}\<close>: the keys of \<open>a\<close> in order, overwritten by \<open>b\<close>, then the new keys of \<open>b\<close>.\<close>

definition dict_merge :: "'v dict \<Rightarrow> 'v dict \<Rightarrow> 'v dict" where
  "dict_merge a b = fold (\<lambda>kv acc. dict_set (fst kv) (snd kv) acc) b a"

section \<open>Text of integers\<close>

text \<open>\<^verbatim>\<open>str(n)\<close> for a Python \<^verbatim>\<open>int\<close>: decimal digits, a leading minus sign when negative.\<close>

definition digit_char :: "nat \<Rightarrow> char" where
  "digit_char d = ''0123456789'' ! d"

fun str_nat :: "nat \<Rightarrow> string" where
  "str_nat n = (if n < 10 then [digit_char n] else str_nat (n div 10) @ [digit_char (n mod 10)])"

declare str_nat.simps [simp del]

definition str_int :: "int \<Rightarrow> string" where
  "str_int i = (if i < 0 then CHR ''-'' # str_nat (nat (- i)) else str_nat (nat i))"

text \<open>
  The way back, for the round trip the specification speaks of (integer to string to
  integer): \<open>int_of_str\<close> reads an optional minus sign followed by decimal digits, the
  fragment of Python's \<^verbatim>\<open>int(s)\<close> that \<^verbatim>\<open>str\<close> of an integer produces, and is
  \<open>None\<close> on any other text.
\<close>

definition digit_val :: "char \<Rightarrow> nat option" where
  "digit_val c = map_of (zip ''0123456789'' [0 ..< 10]) c"

fun nat_of_digits :: "nat \<Rightarrow> string \<Rightarrow> nat option" where
  "nat_of_digits acc [] = Some acc"
| "nat_of_digits acc (c # cs) =
     (case digit_val c of
        None \<Rightarrow> None
      | Some d \<Rightarrow> nat_of_digits (10 * acc + d) cs)"

definition int_of_str :: "string \<Rightarrow> int option" where
  "int_of_str s =
     (case s of
        [] \<Rightarrow> None
      | c # cs \<Rightarrow>
          if c = CHR ''-''
          then (if cs = [] then None else map_option (\<lambda>n. - int n) (nat_of_digits 0 cs))
          else map_option int (nat_of_digits 0 s))"

section \<open>helpers.py\<close>

text \<open>
  A thumbnail path is a \<^verbatim>\<open>str\<close> or a \<^verbatim>\<open>pathlib.Path\<close>
  (\<^verbatim>\<open>get_image_type(p: Union[str, Path])\<close>); a \<open>Path\<close> is given by its text
  \<^verbatim>\<open>str(p)\<close>, in which pathlib has already dropped trailing separators.
\<close>

datatype pathlike = StrPath string | PathObj string

fun path_text :: "pathlike \<Rightarrow> string" where
  "path_text (StrPath s) = s"
| "path_text (PathObj s) = s"

text \<open>\<^verbatim>\<open>s.split(sep)\<close> for a one-character separator: never empty, \<open>[s]\<close> without a separator.\<close>

fun split_char :: "char \<Rightarrow> string \<Rightarrow> string list" where
  "split_char sep [] = [[]]"
| "split_char sep (c # cs) =
     (if c = sep then [] # split_char sep cs
      else (case split_char sep cs of
              [] \<Rightarrow> [[c]]
            | w # ws \<Rightarrow> (c # w) # ws))"

text \<open>
  \<^verbatim>\<open>Path.suffix\<close>, as pathlib computes it: in the final component \<open>name\<close>, the text from
  the last dot on when that dot is neither the first nor the last character, else empty.
\<close>

definition path_name :: "string \<Rightarrow> string" where
  "path_name s = last (split_char CHR ''/'' s)"

definition path_suffix :: "string \<Rightarrow> string" where
  "path_suffix s =
     (let name = path_name s;
          ext = last (split_char CHR ''.'' name);
          i = length name - length ext - 1
      in if CHR ''.'' \<in> set name \<and> 0 < i \<and> ext \<noteq> [] then CHR ''.'' # ext else [])"

fun get_image_type :: "pathlike \<Rightarrow> string" where
  "get_image_type (PathObj p) = path_suffix p"
| "get_image_type (StrPath p) = last (split_char CHR ''.'' p)"

text \<open>
  \<^verbatim>\<open>json.dumps\<close> is library code: it is the parameter \<open>dumps\<close> of everything that
  serialises, and nothing is assumed of it.
\<close>

definition build_default_rupload_params ::
    "(pyval \<Rightarrow> string) \<Rightarrow> string \<Rightarrow> int \<Rightarrow> pyval dict" where
  "build_default_rupload_params dumps upload_id quality =
     [(''upload_id'', PStr upload_id),
      (''media_type'', PInt 1),
      (''retry_context'', PStr (dumps (PDict [
          (''num_reupload'', PInt 0),
          (''num_step_auto_retry'', PInt 0),
          (''num_step_manual_retry'', PInt 0)]))),
      (''xsharing_user_ids'', PStr (dumps (PList []))),
      (''image_compression'', PStr (dumps (PDict [
          (''lib_name'', PStr ''moz''),
          (''lib_version'', PStr ''3.1.m''),
          (''quality'', PStr (str_int quality))])))]"

text \<open>
  \<^verbatim>\<open>remove_from_dict\<close>: the handler catches AttributeError only, so the KeyError of
  \<^verbatim>\<open>pop\<close> on a missing key leaves the function.
\<close>

fun remove_from_dict :: "'v dict \<Rightarrow> string list \<Rightarrow> error + 'v dict" where
  "remove_from_dict input_dict [] = Inr input_dict"
| "remove_from_dict input_dict (k # to_remove) =
     (case dict_pop k input_dict of
        Inl e \<Rightarrow> (if e = AttributeError then remove_from_dict input_dict to_remove else Inl e)
      | Inr popped \<Rightarrow> remove_from_dict (snd popped) to_remove)"

text \<open>
  \<^verbatim>\<open>s.replace(old, '')\<close> and \<^verbatim>\<open>s.replace(old, new)\<close> for a one-character \<open>old\<close>, and
  the normalisation \<^verbatim>\<open>obj.length.replace('.', '').replace(',', '')\<close> that
  \<^verbatim>\<open>_upload_video_in_chunks\<close> applies to the duration.
\<close>

definition replace_char :: "char \<Rightarrow> string \<Rightarrow> string \<Rightarrow> string" where
  "replace_char old new s = concat (map (\<lambda>c. if c = old then new else [c]) s)"

definition upload_media_duration_ms :: "string \<Rightarrow> string" where
  "upload_media_duration_ms len = replace_char CHR '','' [] (replace_char CHR ''.'' [] len)"

section \<open>The transport collaborator and the environment\<close>

type_synonym byte = "8 word"

datatype http_method = GET | POST

datatype body = NoData | RawData "byte list" | TextData string | FormData "string dict"

text \<open>
  One call of \<^verbatim>\<open>self._request(endpoint, method, headers=, query=, data=, signed=)\<close>. A
  keyword that the call does not pass is \<open>None\<close>, \<open>NoData\<close> or \<open>False\<close>.
\<close>

record request =
  endpoint :: string
  meth :: http_method
  headers :: "pyval dict option"
  query :: "pyval dict option"
  data :: body
  signed :: bool

text \<open>A response is known by \<^verbatim>\<open>resp.json()\<close>: \<open>None\<close> when the body does not decode.\<close>

type_synonym response = "pyval option"

record location =
  lat :: "pyval option"
  lng :: "pyval option"
  name :: "string option"
  facebook_places_id :: "string option"

record device =
  manufacturer :: string
  model :: string
  android_sdk_version :: int
  android_release :: string

record device_profile =
  dp_manufacturer :: string
  dp_model :: string
  dp_android_sdk_version :: string
  dp_android_release :: string

datatype PostLocation = Feed | Story

text \<open>
  What the code reads from outside itself. The transport (\<^verbatim>\<open>_request\<close>, a stub in the
  repository) answers a request, knowing the requests made before it, with a response or
  an exception. \<open>uuid4\<close> is the sequence of identifiers that \<^verbatim>\<open>uuid.uuid4()\<close> and
  \<^verbatim>\<open>self._gen_uuid()\<close> draw from, \<open>files\<close> the readable files with their bytes,
  \<open>time_now\<close> the text \<^verbatim>\<open>str(time.time())\<close>. \<open>json_dumps\<close>, \<open>py_repr\<close> (the text of
  a list or a dictionary) and \<open>py_int\<close> (\<^verbatim>\<open>int(s)\<close>, \<open>None\<close> for ValueError) are
  library functions. \<open>PostLocation_value\<close> and \<open>location_attrs\<close>
  (\<^verbatim>\<open>obj.location.__dict__\<close>) stand for declarations of \<^verbatim>\<open>structs\<close> that the
  two modules import.
\<close>

record env =
  respond :: "request list \<Rightarrow> request \<Rightarrow> error + response"
  uuid4 :: "nat \<Rightarrow> string"
  files :: "string \<Rightarrow> byte list option"
  time_now :: string
  json_dumps :: "pyval \<Rightarrow> string"
  py_repr :: "pyval \<Rightarrow> string"
  py_int :: "string \<Rightarrow> int option"
  session_id :: string
  the_device_profile :: device_profile
  PostLocation_value :: "PostLocation \<Rightarrow> string"
  location_attrs :: "location \<Rightarrow> pyval dict"

text \<open>The state that changes: the requests issued so far, and how many identifiers were drawn.\<close>

record world =
  trace :: "request list"
  uuids_drawn :: nat

definition request :: "env \<Rightarrow> request \<Rightarrow> world \<Rightarrow> (error + response) \<times> world" where
  "request e r w = (respond e (trace w) r, w\<lparr>trace := trace w @ [r]\<rparr>)"

definition gen_uuid :: "env \<Rightarrow> world \<Rightarrow> string \<times> world" where
  "gen_uuid e w = (uuid4 e (uuids_drawn w), w\<lparr>uuids_drawn := Suc (uuids_drawn w)\<rparr>)"

text \<open>Sequencing of steps that may raise.\<close>

definition and_then :: "error + 'a \<Rightarrow> ('a \<Rightarrow> error + 'b) \<Rightarrow> error + 'b" where
  "and_then r f = (case r of Inl e \<Rightarrow> Inl e | Inr a \<Rightarrow> f a)"

definition resp_json :: "response \<Rightarrow> error + pyval" where
  "resp_json r = (case r of None \<Rightarrow> Inl JSONDecodeError | Some v \<Rightarrow> Inr v)"

text \<open>\<^verbatim>\<open>v[key]\<close> with a string key, \<^verbatim>\<open>v[0]\<close>, \<^verbatim>\<open>str(v)\<close> and \<^verbatim>\<open>**v\<close> on decoded JSON.\<close>

fun py_getitem :: "pyval \<Rightarrow> string \<Rightarrow> error + pyval" where
  "py_getitem (PDict d) k = (case map_of d k of None \<Rightarrow> Inl KeyError | Some v \<Rightarrow> Inr v)"
| "py_getitem v k = Inl TypeError"

fun py_index0 :: "pyval \<Rightarrow> error + pyval" where
  "py_index0 (PList []) = Inl IndexError"
| "py_index0 (PList (x # xs)) = Inr x"
| "py_index0 (PStr []) = Inl IndexError"
| "py_index0 (PStr (c # cs)) = Inr (PStr [c])"
| "py_index0 (PDict d) = Inl KeyError"
| "py_index0 v = Inl TypeError"

fun py_str :: "(pyval \<Rightarrow> string) \<Rightarrow> pyval \<Rightarrow> string" where
  "py_str repr PNone = ''None''"
| "py_str repr (PBool b) = (if b then ''True'' else ''False'')"
| "py_str repr (PInt i) = str_int i"
| "py_str repr (PStr s) = s"
| "py_str repr v = repr v"

fun py_mapping :: "pyval \<Rightarrow> error + pyval dict" where
  "py_mapping (PDict d) = Inr d"
| "py_mapping v = Inl TypeError"

section \<open>post.py: location lookup and image upload\<close>

definition location_search :: "pyval dict \<Rightarrow> request" where
  "location_search q =
     \<lparr>endpoint = ''location_search'', meth = GET, headers = None, query = Some q,
      data = NoData, signed = False\<rparr>"

text \<open>The part of \<^verbatim>\<open>_request_fb_places_id\<close> after the request: what it makes of the response.\<close>

definition venue_external_id :: "env \<Rightarrow> response \<Rightarrow> error + string" where
  "venue_external_id e resp =
     and_then (resp_json resp) (\<lambda>as_json.
     and_then (py_getitem as_json ''status'') (\<lambda>status.
       if status \<noteq> PStr ''ok'' then Inl BadResponse
       else
         and_then (py_getitem as_json ''venues'') (\<lambda>venues.
         and_then (py_index0 venues) (\<lambda>venue.
         and_then (py_getitem venue ''external_id'') (\<lambda>external_id.
           Inr (py_str (py_repr e) external_id))))))"

definition request_fb_places_id :: "env \<Rightarrow> location \<Rightarrow> world \<Rightarrow> (error + string) \<times> world" where
  "request_fb_places_id e obj w =
     (if lat obj = None \<or> lng obj = None then
        (case name obj of
           None \<Rightarrow> (Inl ValueError, w)
         | Some n \<Rightarrow>
             (let (rank_token, w1) = gen_uuid e w;
                  (r, w2) = request e (location_search
                              [(''search_query'', PStr n), (''rankToken'', PStr rank_token)]) w1
              in (and_then r (venue_external_id e), w2)))
      else
        (let q = [(''latitude'', the (lat obj)), (''longitude'', the (lng obj))];
             q' = (case name obj of
                     None \<Rightarrow> q
                   | Some n \<Rightarrow> if n \<noteq> [] then dict_set ''search_query'' (PStr n) q else q);
             (r, w1) = request e (location_search q') w
         in (and_then r (venue_external_id e), w1)))"

text \<open>\<^verbatim>\<open>quality or 70\<close>: \<^verbatim>\<open>None\<close> and \<^verbatim>\<open>0\<close> are both falsy.\<close>

definition quality_or_70 :: "int option \<Rightarrow> int" where
  "quality_or_70 quality = (case quality of None \<Rightarrow> 70 | Some q \<Rightarrow> if q = 0 then 70 else q)"

definition upload_image_headers ::
    "env \<Rightarrow> string \<Rightarrow> string \<Rightarrow> string \<Rightarrow> string \<Rightarrow> string \<Rightarrow> string \<Rightarrow> int option \<Rightarrow> pyval dict" where
  "upload_image_headers e waterfall_id entity_length entity_name entity_type sid upload_id quality =
     [(''x-fb-photo-waterfall-id'', PStr waterfall_id),
      (''x-entity-length'', PStr entity_length),
      (''x-entity-name'', PStr entity_name),
      (''x-instagram-rupload-params'',
         PStr (json_dumps e (PDict (build_default_rupload_params (json_dumps e) upload_id
                                      (quality_or_70 quality))))),
      (''x-entity-type'', PStr entity_type),
      (''offset'', PStr ''0''),
      (''scene_capture_type'', PStr ''standard''),
      (''creation_logger_session_id'', PStr sid)]"

definition upload_image_request ::
    "env \<Rightarrow> byte list \<Rightarrow> string \<Rightarrow> string \<Rightarrow> string \<Rightarrow> string \<Rightarrow> string \<Rightarrow> string \<Rightarrow> int option \<Rightarrow> request" where
  "upload_image_request e content waterfall_id entity_length entity_name entity_type sid upload_id quality =
     \<lparr>endpoint = ''https://i.instagram.com/rupload_igphoto/'' @ entity_name, meth = POST,
      headers = Some (upload_image_headers e waterfall_id entity_length entity_name entity_type
                        sid upload_id quality),
      query = None, data = RawData content, signed = False\<rparr>"

definition upload_image ::
    "env \<Rightarrow> pathlike \<Rightarrow> string \<Rightarrow> string \<Rightarrow> string \<Rightarrow> string \<Rightarrow> string \<Rightarrow> string \<Rightarrow> int option
       \<Rightarrow> world \<Rightarrow> (error + response) \<times> world" where
  "upload_image e path waterfall_id entity_length entity_name entity_type sid upload_id quality w =
     (case files e (path_text path) of
        None \<Rightarrow> (Inl FileNotFoundError, w)
      | Some content \<Rightarrow>
          request e (upload_image_request e content waterfall_id entity_length entity_name
                       entity_type sid upload_id quality) w)"

section \<open>post.py: publishing an image\<close>

text \<open>
  The structs \<^verbatim>\<open>PostFeed\<close>, \<^verbatim>\<open>PostStory\<close> and \<^verbatim>\<open>PostFeedVideo\<close> are imported, not
  defined, by the two modules: an object is given by the attributes the code reads, and
  by \<open>as_dict\<close>, the dictionary that \<^verbatim>\<open>obj.fill(self).to_dict()\<close> returns (with the
  annotations of \<^verbatim>\<open>_upload_image\<close>, its values are strings).
\<close>

record post_base =
  upload_id :: string
  as_dict :: "string dict"

record image_post = post_base +
  device :: "device option"
  location :: "location option"
  source_type :: string

definition new_device :: "env \<Rightarrow> error + device" where
  "new_device e =
     (case py_int e (dp_android_sdk_version (the_device_profile e)) of
        None \<Rightarrow> Inl ValueError
      | Some v \<Rightarrow> Inr \<lparr>manufacturer = dp_manufacturer (the_device_profile e),
                       model = dp_model (the_device_profile e),
                       android_sdk_version = v,
                       android_release = dp_android_release (the_device_profile e)\<rparr>)"

definition configure_request :: "env \<Rightarrow> string \<Rightarrow> string dict \<Rightarrow> request" where
  "configure_request e ep d =
     \<lparr>endpoint = ep, meth = POST,
      headers = Some [(''retry_context'', PStr (json_dumps e (PDict [
                         (''num_reupload'', PInt 0),
                         (''num_step_auto_retry'', PInt 0),
                         (''num_step_manual_retry'', PInt 0)])))],
      query = None, data = FormData d, signed = True\<rparr>"

text \<open>The last statement of \<^verbatim>\<open>post_post\<close>: the endpoint chosen by \<^verbatim>\<open>obj.source_type\<close>.\<close>

definition configure_post :: "env \<Rightarrow> image_post \<Rightarrow> string dict \<Rightarrow> world \<Rightarrow> (error + response) \<times> world" where
  "configure_post e obj d w =
     (if source_type obj = PostLocation_value e Feed
      then request e (configure_request e ''media/configure/'' d) w
      else if source_type obj = PostLocation_value e Story
      then request e (configure_request e ''media/configure_to_story/'' d) w
      else (Inl UnsupportedPostLocation, w))"

text \<open>
  The location block of \<^verbatim>\<open>post_post\<close>: it resolves the place when
  \<^verbatim>\<open>facebook_places_id\<close> is falsy (\<^verbatim>\<open>None\<close> or empty), writes it into the object and
  stores the serialised location in the payload.
\<close>

definition attach_location ::
    "env \<Rightarrow> image_post \<Rightarrow> string dict \<Rightarrow> world \<Rightarrow> (error + image_post \<times> string dict) \<times> world" where
  "attach_location e obj d w =
     (case location obj of
        None \<Rightarrow> (Inr (obj, d), w)
      | Some loc \<Rightarrow>
          (let (r, w1) =
                 (if facebook_places_id loc = None \<or> facebook_places_id loc = Some []
                  then (case request_fb_places_id e loc w of
                          (Inl err, w') \<Rightarrow> (Inl err, w')
                        | (Inr pid, w') \<Rightarrow> (Inr (loc\<lparr>facebook_places_id := Some pid\<rparr>), w'))
                  else (Inr loc, w))
           in case r of
                Inl err \<Rightarrow> (Inl err, w1)
              | Inr loc' \<Rightarrow>
                  (Inr (obj\<lparr>location := Some loc'\<rparr>,
                        dict_set ''location'' (json_dumps e (PDict (location_attrs e loc'))) d),
                   w1)))"

text \<open>
  The start of \<^verbatim>\<open>post_post\<close>: a missing device is built from the device profile
  (\<^verbatim>\<open>int(...)\<close> may raise), and the five \<^verbatim>\<open>as_dict.pop\<close> that make the arguments
  of the upload run left to right.
\<close>

definition fill_device :: "env \<Rightarrow> image_post \<Rightarrow> error + image_post" where
  "fill_device e obj =
     (if device obj = None
      then and_then (new_device e) (\<lambda>d. Inr (obj\<lparr>device := Some d\<rparr>))
      else Inr obj)"

definition pop_image_fields ::
    "string dict \<Rightarrow> error + (string \<times> string \<times> string \<times> string \<times> string \<times> string dict)" where
  "pop_image_fields d =
     and_then (dict_pop ''image_path'' d) (\<lambda>(image_path, d1).
     and_then (dict_pop ''x_fb_waterfall_id'' d1) (\<lambda>(waterfall_id, d2).
     and_then (dict_pop ''entity_length'' d2) (\<lambda>(entity_length, d3).
     and_then (dict_pop ''entity_name'' d3) (\<lambda>(entity_name, d4).
     and_then (dict_pop ''entity_type'' d4) (\<lambda>(entity_type, d5).
       Inr (image_path, waterfall_id, entity_length, entity_name, entity_type, d5))))))"

text \<open>
  \<^verbatim>\<open>post_post\<close> returns the outcome, the object as the caller sees it afterwards
  (\<^verbatim>\<open>obj.device\<close> and \<^verbatim>\<open>obj.location.facebook_places_id\<close> are assigned in place) and
  the world.
\<close>

definition post_post ::
    "env \<Rightarrow> image_post \<Rightarrow> int option \<Rightarrow> world \<Rightarrow> (error + response) \<times> image_post \<times> world" where
  "post_post e obj quality w =
     (case fill_device e obj of
        Inl err \<Rightarrow> (Inl err, obj, w)
      | Inr obj1 \<Rightarrow>
          (case pop_image_fields (as_dict obj) of
             Inl err \<Rightarrow> (Inl err, obj1, w)
           | Inr (image_path, waterfall_id, entity_length, entity_name, entity_type, d5) \<Rightarrow>
               (case upload_image e (StrPath image_path) waterfall_id entity_length entity_name
                       entity_type (session_id e) (upload_id obj1) quality w of
                  (Inl err, w1) \<Rightarrow> (Inl err, obj1, w1)
                | (Inr uploaded, w1) \<Rightarrow>
                    (case attach_location e obj1 d5 w1 of
                       (Inl err, w2) \<Rightarrow> (Inl err, obj1, w2)
                     | (Inr (obj2, d6), w2) \<Rightarrow>
                         (let (r, w3) = configure_post e obj2 d6 w2 in (r, obj2, w3))))))"

section \<open>post.py: publishing a video\<close>

record post_feed_video = post_base +
  path :: string
  thumbnail_path :: pathlike
  length_str :: string
  height :: int
  width :: int

text \<open>
  \<open>height\<close> and \<open>width\<close> hold \<^verbatim>\<open>int(obj.height)\<close> and \<^verbatim>\<open>int(obj.width)\<close>, \<open>length_str\<close>
  is \<^verbatim>\<open>obj.length\<close>.

  \<^verbatim>\<open>_bytes_from_file\<close>: \<^verbatim>\<open>f.read(chunksize)\<close> returns the next \<open>chunksize\<close> bytes, fewer
  at the end of the file, and the generator stops at the first empty read.
\<close>

function bytes_from_file :: "byte list \<Rightarrow> nat \<Rightarrow> byte list list" where
  "bytes_from_file content chunksize =
     (let chunk = take chunksize content
      in if chunk \<noteq> [] then chunk # bytes_from_file (drop chunksize content) chunksize
         else [])"
  by pat_completeness auto
termination
  by (relation "measure (\<lambda>(content, chunksize). length content)") auto

declare bytes_from_file.simps [simp del]

definition rupload_params :: "env \<Rightarrow> post_feed_video \<Rightarrow> pyval dict" where
  "rupload_params e obj =
     [(''upload_media_height'', PStr (str_int (height obj))),
      (''upload_media_width'', PStr (str_int (width obj))),
      (''xsharing_user_ids'', PList []),
      (''upload_media_duration_ms'', PStr (upload_media_duration_ms (length_str obj))),
      (''upload_id'', PStr (upload_id obj)),
      (''retry_context'', PStr (json_dumps e (PDict [
          (''num_step_auto_retry'', PInt 0),
          (''num_reupload'', PInt 0),
          (''num_step_manual_retry'', PInt 0)]))),
      (''media_type'', PStr ''2'')]"

definition start_request :: "env \<Rightarrow> post_feed_video \<Rightarrow> string \<Rightarrow> request" where
  "start_request e obj uuid =
     \<lparr>endpoint = ''rupload_igvideo/'' @ uuid @ ''/'', meth = POST,
      headers = Some [(''x-instagram-rupload-params'',
                       PStr (json_dumps e (PDict (rupload_params e obj))))],
      query = Some [(''segmented'', PStr ''true''), (''phase'', PStr ''start'')],
      data = TextData [], signed = False\<rparr>"

definition transfer_get :: "string \<Rightarrow> pyval dict \<Rightarrow> request" where
  "transfer_get entity_name hdrs =
     \<lparr>endpoint = ''rupload_igvideo/'' @ entity_name @ ''?segmented=true&phase=transfer'',
      meth = GET, headers = Some hdrs, query = None, data = NoData, signed = False\<rparr>"

definition transfer_post :: "string \<Rightarrow> pyval dict \<Rightarrow> pyval dict \<Rightarrow> nat \<Rightarrow> byte list \<Rightarrow> request" where
  "transfer_post entity_name hdrs got offset chunk =
     \<lparr>endpoint = ''rupload_igvideo/'' @ entity_name @ ''?segmented=true&phase=transfer'',
      meth = POST,
      headers = Some (dict_merge (dict_merge hdrs got)
                        [(''segment-type'', PInt 3),
                         (''x-entity-type'', PStr ''video/mp4''),
                         (''offset'', PStr ''0''),
                         (''segment-start-offset'', PStr (str_int (int offset)))]),
      query = None, data = RawData chunk, signed = False\<rparr>"

text \<open>
  The \<^verbatim>\<open>for chunk in ...\<close> loop of \<^verbatim>\<open>_upload_video_in_chunks\<close>, with the offset it
  tracks; it returns the offset reached.
\<close>

fun transfer_chunks ::
    "env \<Rightarrow> pyval dict \<Rightarrow> byte list list \<Rightarrow> nat \<Rightarrow> world \<Rightarrow> (error + nat) \<times> world" where
  "transfer_chunks e hdrs [] offset w = (Inr offset, w)"
| "transfer_chunks e hdrs (chunk # chunks) offset w =
     (let (entity_name, w1) = gen_uuid e w;
          (r1, w2) = request e (transfer_get entity_name hdrs) w1
      in case and_then r1 (\<lambda>resp. and_then (resp_json resp) py_mapping) of
           Inl err \<Rightarrow> (Inl err, w2)
         | Inr got \<Rightarrow>
             (let (r2, w3) = request e (transfer_post entity_name hdrs got offset chunk) w2
              in case r2 of
                   Inl err \<Rightarrow> (Inl err, w3)
                 | Inr _ \<Rightarrow> transfer_chunks e hdrs chunks (offset + length chunk) w3))"

text \<open>
  \<^verbatim>\<open>_upload_video_in_chunks\<close>. The generator opens the file when the loop asks for the
  first chunk, that is after the Start request.
\<close>

definition upload_video_in_chunks ::
    "env \<Rightarrow> post_feed_video \<Rightarrow> world \<Rightarrow> (error + pyval dict) \<times> world" where
  "upload_video_in_chunks e obj w =
     (let (uuid, w1) = gen_uuid e w;
          (r, w2) = request e (start_request e obj uuid) w1
      in case and_then r (\<lambda>resp. and_then (resp_json resp) (\<lambda>j. py_getitem j ''stream_id'')) of
           Inl err \<Rightarrow> (Inl err, w2)
         | Inr stream_id \<Rightarrow>
             (let hdrs = [(''stream_id'', stream_id)]
              in case files e (path obj) of
                   None \<Rightarrow> (Inl FileNotFoundError, w2)
                 | Some content \<Rightarrow>
                     (case transfer_chunks e hdrs (bytes_from_file content 1024) 0 w2 of
                        (Inl err, w3) \<Rightarrow> (Inl err, w3)
                      | (Inr offset, w3) \<Rightarrow> (Inr hdrs, w3))))"

definition end_request :: "string \<Rightarrow> pyval dict \<Rightarrow> request" where
  "end_request entity_name hdrs =
     \<lparr>endpoint = ''rupload_igvideo/'' @ entity_name @ ''?segmented=true&phase=end'',
      meth = POST, headers = Some hdrs, query = None, data = NoData, signed = False\<rparr>"

definition upload_video_thumbnail ::
    "env \<Rightarrow> post_feed_video \<Rightarrow> pyval dict \<Rightarrow> world \<Rightarrow> (error + unit) \<times> world" where
  "upload_video_thumbnail e obj hdrs w =
     (let (thumbnail_entity_name, w1) = gen_uuid e w
      in case files e (path_text (thumbnail_path obj)) of
           None \<Rightarrow> (Inl FileNotFoundError, w1)
         | Some content \<Rightarrow>
             (let thumbnail_entity_length = length content;
                  image_type = get_image_type (thumbnail_path obj)
              in if image_type \<notin> set [''jpg'', ''jpeg''] then (Inl ValueError, w1)
                 else
                   (let thumbnail_entity_type = ''image/'' @ image_type;
                        (waterfall_id, w2) = gen_uuid e w1;
                        (r, w3) = request e (end_request thumbnail_entity_name hdrs) w2
                    in case r of
                         Inl err \<Rightarrow> (Inl err, w3)
                       | Inr _ \<Rightarrow>
                           (case upload_image e (thumbnail_path obj) waterfall_id
                                   (str_int (int thumbnail_entity_length)) thumbnail_entity_name
                                   thumbnail_entity_type (session_id e) (time_now e) (Some 0) w3 of
                              (Inl err, w4) \<Rightarrow> (Inl err, w4)
                            | (Inr _, w4) \<Rightarrow> (Inr (), w4)))))"

definition upload_finish_request :: "string dict \<Rightarrow> request" where
  "upload_finish_request d =
     \<lparr>endpoint = ''media/upload_finish/?video=1'', meth = POST, headers = None, query = None,
      data = FormData d, signed = False\<rparr>"

definition finish_removed :: "string list" where
  "finish_removed = [''path'', ''thumbnail_path'', ''creation_logger_session_id'',
                     ''multi_sharing'', ''height'', ''width'', ''quality_info'',
                     ''pdg_hash_info'']"

definition configure_removed :: "string list" where
  "configure_removed = [''path'', ''thumbnail_path'', ''audio_muted'', ''height'', ''width'',
                        ''quality_info'', ''pdg_hash_info'']"

definition finish_video_upload :: "env \<Rightarrow> post_feed_video \<Rightarrow> world \<Rightarrow> (error + unit) \<times> world" where
  "finish_video_upload e obj w =
     (case remove_from_dict (as_dict obj) finish_removed of
        Inl err \<Rightarrow> (Inl err, w)
      | Inr d \<Rightarrow>
          (case request e (upload_finish_request d) w of
             (Inl err, w1) \<Rightarrow> (Inl err, w1)
           | (Inr _, w1) \<Rightarrow> (Inr (), w1)))"

definition configure_video :: "env \<Rightarrow> post_feed_video \<Rightarrow> world \<Rightarrow> (error + unit) \<times> world" where
  "configure_video e obj w =
     (case remove_from_dict (as_dict obj) configure_removed of
        Inl err \<Rightarrow> (Inl err, w)
      | Inr d \<Rightarrow>
          (case request e (upload_finish_request d) w of
             (Inl err, w1) \<Rightarrow> (Inl err, w1)
           | (Inr _, w1) \<Rightarrow> (Inr (), w1)))"

definition post_video :: "env \<Rightarrow> post_feed_video \<Rightarrow> world \<Rightarrow> (error + unit) \<times> world" where
  "post_video e obj w =
     (case upload_video_in_chunks e obj w of
        (Inl err, w1) \<Rightarrow> (Inl err, w1)
      | (Inr hdrs, w1) \<Rightarrow>
          (case upload_video_thumbnail e obj hdrs w1 of
             (Inl err, w2) \<Rightarrow> (Inl err, w2)
           | (Inr _, w2) \<Rightarrow>
               (case finish_video_upload e obj w2 of
                  (Inl err, w3) \<Rightarrow> (Inl err, w3)
                | (Inr _, w3) \<Rightarrow> configure_video e obj w3)))"

section \<open>Reading a trace\<close>

text \<open>
  The image uploads in a list of requests (those sent to the photo upload URL), and the
  requests sent to a given endpoint.
\<close>

definition image_upload_calls :: "request list \<Rightarrow> request list" where
  "image_upload_calls tr =
     filter (\<lambda>r. take 40 (endpoint r) = ''https://i.instagram.com/rupload_igphoto/'') tr"

definition calls_to :: "string \<Rightarrow> request list \<Rightarrow> request list" where
  "calls_to ep tr = filter (\<lambda>r. endpoint r = ep) tr"

text \<open>
  The two requests that the transfer loop issues for chunk \<open>i\<close>, with \<open>first\<close> the
  number of identifiers drawn before the loop, \<open>offset\<close> the offset at its start and
  \<open>gots\<close> the decoded answers to the GET requests.
\<close>

definition transfer_pair ::
    "env \<Rightarrow> pyval dict \<Rightarrow> nat \<Rightarrow> nat \<Rightarrow> byte list list \<Rightarrow> pyval dict list \<Rightarrow> nat \<Rightarrow> request list" where
  "transfer_pair e hdrs first offset chunks gots i =
     [transfer_get (uuid4 e (first + i)) hdrs,
      transfer_post (uuid4 e (first + i)) hdrs (gots ! i)
        (offset + sum_list (map length (take i chunks))) (chunks ! i)]"

text \<open>
  The phase of a request of a video publish, read from its endpoint: 0 for the Start
  request, 1 for a transfer request, 2 for the End request, 3 for an image upload, 4 for
  the finish and configure requests.
\<close>

definition video_phase :: "request \<Rightarrow> nat" where
  "video_phase r =
     (let ep = endpoint r
      in if take 40 ep = ''https://i.instagram.com/rupload_igphoto/'' then 3
         else if ep = ''media/upload_finish/?video=1'' then 4
         else if take 14 (rev ep) = rev ''phase=transfer'' then 1
         else if take 9 (rev ep) = rev ''phase=end'' then 2
         else 0)"

section \<open>Example inputs\<close>

text \<open>
  A transport that answers every request with the same JSON object, two readable files
  for thumbnails, a video of 1025 bytes, and objects to publish.
\<close>

definition example_answer :: pyval where
  "example_answer =
     PDict [(''status'', PStr ''ok''),
            (''venues'', PList [PDict [(''external_id'', PStr ''123'')]]),
            (''stream_id'', PStr ''stream-1'')]"

definition example_files :: "string \<Rightarrow> byte list option" where
  "example_files p =
     (if p = ''video.mp4'' then Some (replicate 1025 7)
      else if p = ''thumb.jpg'' then Some [1, 2, 3]
      else if p = ''thumb.png'' then Some [4, 5]
      else if p = ''photo.jpg'' then Some [6]
      else None)"

definition example_env :: env where
  "example_env =
     \<lparr>respond = (\<lambda>tr r. Inr (Some example_answer)),
      uuid4 = (\<lambda>n. ''uuid-'' @ str_nat n),
      files = example_files,
      time_now = ''1600000000.0'',
      json_dumps = (\<lambda>v. ''{}''),
      py_repr = (\<lambda>v. ''[]''),
      py_int = int_of_str,
      session_id = ''session-1'',
      the_device_profile = \<lparr>dp_manufacturer = ''samsung'', dp_model = ''SM-G930F'',
                              dp_android_sdk_version = ''26'', dp_android_release = ''8.0''\<rparr>,
      PostLocation_value = (\<lambda>l. case l of Feed \<Rightarrow> ''4'' | Story \<Rightarrow> ''3''),
      location_attrs = (\<lambda>l. [(''name'', case name l of None \<Rightarrow> PNone | Some n \<Rightarrow> PStr n)])\<rparr>"

definition world0 :: world where
  "world0 = \<lparr>trace = [], uuids_drawn = 0\<rparr>"

definition example_video :: post_feed_video where
  "example_video =
     \<lparr>upload_id = ''1600000000'',
      as_dict = [(''caption'', ''hello''), (''path'', ''video.mp4''),
                 (''thumbnail_path'', ''thumb.jpg''),
                 (''creation_logger_session_id'', ''session-1''), (''multi_sharing'', ''1''),
                 (''audio_muted'', ''0''), (''height'', ''720''), (''width'', ''1280''),
                 (''quality_info'', ''q''), (''pdg_hash_info'', ''p'')],
      path = ''video.mp4'', thumbnail_path = StrPath ''thumb.jpg'',
      length_str = ''1,234.5'', height = 720, width = 1280\<rparr>"

definition example_location :: location where
  "example_location = \<lparr>lat = None, lng = None, name = Some ''Paris'', facebook_places_id = None\<rparr>"

definition known_place :: location where
  "known_place = \<lparr>lat = None, lng = None, name = Some ''Paris'', facebook_places_id = Some ''123''\<rparr>"

definition error_env :: env where
  "error_env = example_env\<lparr>respond := (\<lambda>tr r. Inr (Some (PDict [(''status'', PStr ''error'')])))\<rparr>"

definition no_venue_env :: env where
  "no_venue_env = example_env\<lparr>respond := (\<lambda>tr r. Inr (Some (PDict [(''status'', PStr ''ok''),
                                                             (''venues'', PList [])])))\<rparr>"

definition example_post :: image_post where
  "example_post =
     \<lparr>upload_id = ''17'',
      as_dict = [(''caption'', ''hello''), (''image_path'', ''photo.jpg''),
                 (''x_fb_waterfall_id'', ''wf-1''), (''entity_length'', ''1''),
                 (''entity_name'', ''photo-1''), (''entity_type'', ''image/jpg'')],
      device = None, location = None, source_type = ''4''\<rparr>"

definition overriding_env :: env where
  "overriding_env =
     example_env\<lparr>respond := (\<lambda>tr r. if meth r = GET
                                      then Inr (Some (PDict [(''stream_id'', PStr ''other'')]))
                                      else Inr (Some example_answer))\<rparr>"

section \<open>Dictionaries\<close>

lemma dict_keys_del: "dict_keys (dict_del k d) = dict_keys d - {k}"
  by (auto simp: dict_keys_def dict_del_def)

lemma dict_pop_present:
  "k \<in> dict_keys d \<Longrightarrow> \<exists>v. dict_pop k d = Inr (v, dict_del k d)"
  by (auto simp: dict_pop_def dict_keys_def map_of_eq_None_iff split: option.splits)

lemma dict_pop_absent: "k \<notin> dict_keys d \<Longrightarrow> dict_pop k d = Inl KeyError"
proof -
  assume "k \<notin> dict_keys d"
  then have "map_of d k = None"
    by (simp add: dict_keys_def map_of_eq_None_iff)
  then show ?thesis by (simp add: dict_pop_def)
qed

text \<open>
  What \<open>remove_from_dict\<close> computes: the dictionary without the listed keys when each
  of them is present and listed once, KeyError otherwise (the second \<^verbatim>\<open>pop\<close> of a key
  listed twice finds it gone).
\<close>

lemma remove_from_dict_eq:
  "remove_from_dict d ks =
     (if distinct ks \<and> set ks \<subseteq> dict_keys d
      then Inr (filter (\<lambda>kv. fst kv \<notin> set ks) d) else Inl KeyError)"
proof (induction ks arbitrary: d)
  case Nil
  then show ?case by simp
next
  case (Cons k ks)
  show ?case
  proof (cases "k \<in> dict_keys d")
    case True
    then obtain v where "dict_pop k d = Inr (v, dict_del k d)"
      using dict_pop_present by blast
    then have "remove_from_dict d (k # ks) = remove_from_dict (dict_del k d) ks"
      by simp
    also have "\<dots> = (if distinct ks \<and> set ks \<subseteq> dict_keys d - {k}
                     then Inr (filter (\<lambda>kv. fst kv \<notin> set ks) (dict_del k d)) else Inl KeyError)"
      by (simp add: Cons.IH dict_keys_del)
    also have "\<dots> = (if distinct (k # ks) \<and> set (k # ks) \<subseteq> dict_keys d
                     then Inr (filter (\<lambda>kv. fst kv \<notin> set (k # ks)) d) else Inl KeyError)"
      using True by (auto simp: dict_del_def conj_commute)
    finally show ?thesis .
  next
    case False
    then show ?thesis by (simp add: dict_pop_absent)
  qed
qed

text \<open>
  C9. \<open>remove_from_dict\<close> catches AttributeError only, and \<^verbatim>\<open>dict.pop\<close> raises KeyError
  on a missing key: whenever the removal list holds a key that the dictionary lacks, the
  call raises KeyError instead of skipping the key, and it returns normally only when
  every listed key is in the dictionary.
\<close>

theorem remove_from_dict_missing_key:
  "((\<exists>k \<in> set to_remove. k \<notin> dict_keys input_dict)
      \<longrightarrow> remove_from_dict input_dict to_remove = Inl KeyError)
   \<and> ((\<exists>d'. remove_from_dict input_dict to_remove = Inr d')
      \<longrightarrow> set to_remove \<subseteq> dict_keys input_dict)"
  by (auto simp: remove_from_dict_eq split: if_splits)

theorem remove_from_dict_missing_key_witness:
  "remove_from_dict [(''a'', 1::nat), (''b'', 2)] [''a'', ''c''] = Inl KeyError
   \<and> remove_from_dict [(''a'', 1::nat), (''b'', 2)] [''a''] = Inr [(''b'', 2)]
   \<and> set [''a''] \<subseteq> dict_keys [(''a'', 1::nat), (''b'', 2)]"
proof -
  have absent: "\<exists>k \<in> set [''a'', ''c'']. k \<notin> dict_keys [(''a'', 1::nat), (''b'', 2)]"
    by (simp add: dict_keys_def)
  have ok: "remove_from_dict [(''a'', 1::nat), (''b'', 2)] [''a''] = Inr [(''b'', 2)]"
    by (simp add: dict_pop_def dict_del_def)
  from remove_from_dict_missing_key [of "[''a'', ''c'']" "[(''a'', 1::nat), (''b'', 2)]"] absent
  have "remove_from_dict [(''a'', 1::nat), (''b'', 2)] [''a'', ''c''] = Inl KeyError"
    by blast
  moreover from remove_from_dict_missing_key [of "[''a'']" "[(''a'', 1::nat), (''b'', 2)]"] ok
  have "set [''a''] \<subseteq> dict_keys [(''a'', 1::nat), (''b'', 2)]"
    by blast
  ultimately show ?thesis using ok by simp
qed

section \<open>Integers as text\<close>

lemma digit_val_char: "d < 10 \<Longrightarrow> digit_val (digit_char d) = Some d"
proof -
  assume "d < 10"
  then have "d \<in> {0, 1, 2, 3, 4, 5, 6, 7, 8, 9}"
    by auto
  then show ?thesis
    by (auto simp: digit_val_def digit_char_def upt_rec)
qed

lemma nat_of_digits_append:
  "nat_of_digits acc (xs @ ys) =
     (case nat_of_digits acc xs of None \<Rightarrow> None | Some a \<Rightarrow> nat_of_digits a ys)"
  by (induction xs arbitrary: acc) (auto split: option.splits)

lemma nat_of_digits_str_nat: "nat_of_digits 0 (str_nat n) = Some n"
proof (induction n rule: str_nat.induct)
  case (1 n)
  show ?case
  proof (cases "n < 10")
    case True
    then show ?thesis
      by (subst str_nat.simps) (simp add: digit_val_char)
  next
    case False
    with "1.IH" have "nat_of_digits 0 (str_nat (n div 10)) = Some (n div 10)" by simp
    with False show ?thesis
      by (subst str_nat.simps) (simp add: nat_of_digits_append digit_val_char)
  qed
qed

lemma str_nat_nonempty: "str_nat n \<noteq> []"
  by (subst str_nat.simps) simp

lemma digit_char_not_minus: "d < 10 \<Longrightarrow> digit_char d \<noteq> CHR ''-''"
proof -
  assume "d < 10"
  then have "d \<in> {0, 1, 2, 3, 4, 5, 6, 7, 8, 9}"
    by auto
  then show ?thesis
    by (auto simp: digit_char_def)
qed

lemma hd_str_nat: "hd (str_nat n) \<noteq> CHR ''-''"
proof (induction n rule: str_nat.induct)
  case (1 n)
  show ?case
  proof (cases "n < 10")
    case True
    then show ?thesis by (subst str_nat.simps) (simp add: digit_char_not_minus)
  next
    case False
    with "1.IH" have "hd (str_nat (n div 10)) \<noteq> CHR ''-''" by simp
    with False show ?thesis
      by (subst str_nat.simps) (simp add: str_nat_nonempty)
  qed
qed

lemma int_of_str_str_int: "int_of_str (str_int i) = Some i"
proof (cases "i < 0")
  case True
  then show ?thesis
    by (simp add: int_of_str_def str_int_def str_nat_nonempty nat_of_digits_str_nat)
next
  case False
  obtain c cs where s: "str_nat (nat i) = c # cs"
    using str_nat_nonempty [of "nat i"] by (cases "str_nat (nat i)") auto
  with hd_str_nat [of "nat i"] have "c \<noteq> CHR ''-''" by simp
  with False s nat_of_digits_str_nat [of "nat i"] show ?thesis
    by (simp add: int_of_str_def str_int_def)
qed

lemma str_int_70: "str_int 70 = ''70''"
  by (simp add: str_int_def str_nat.simps digit_char_def)

section \<open>The payload synthesiser\<close>

text \<open>
  C8. For every upload id and every quality, \<open>build_default_rupload_params\<close> returns a
  retry context whose three counters are zero (it is a function of its arguments, so no
  earlier call can change that) and an image-compression descriptor with library name
  "moz", library version "3.1.m" and the decimal text of the quality, which reads back as
  the same integer.
\<close>

theorem build_default_rupload_params_fixed:
  "map_of (build_default_rupload_params dumps uid quality) ''retry_context'' =
     Some (PStr (dumps (PDict [(''num_reupload'', PInt 0),
                               (''num_step_auto_retry'', PInt 0),
                               (''num_step_manual_retry'', PInt 0)])))
   \<and> map_of (build_default_rupload_params dumps uid quality) ''image_compression'' =
     Some (PStr (dumps (PDict [(''lib_name'', PStr ''moz''),
                               (''lib_version'', PStr ''3.1.m''),
                               (''quality'', PStr (str_int quality))])))
   \<and> int_of_str (str_int quality) = Some quality"
  by (simp add: build_default_rupload_params_def int_of_str_str_int)

text \<open>
  C7. The normalisation of the duration that is sent as \<open>upload_media_duration_ms\<close>
  removes the characters '.' and ',' and changes nothing else: "1,234.5" becomes "12345"
  and "10" stays "10".
\<close>

theorem upload_media_duration_ms_strips:
  "upload_media_duration_ms s = filter (\<lambda>c. c \<noteq> CHR ''.'' \<and> c \<noteq> CHR '','') s
   \<and> map_of (rupload_params e obj) ''upload_media_duration_ms'' =
       Some (PStr (filter (\<lambda>c. c \<noteq> CHR ''.'' \<and> c \<noteq> CHR '','') (length_str obj)))
   \<and> upload_media_duration_ms ''1,234.5'' = ''12345''
   \<and> upload_media_duration_ms ''10'' = ''10''"
proof -
  have strip: "upload_media_duration_ms t = filter (\<lambda>c. c \<noteq> CHR ''.'' \<and> c \<noteq> CHR '','') t" for t
    by (induction t) (auto simp: upload_media_duration_ms_def replace_char_def)
  have "map_of (rupload_params e obj) ''upload_media_duration_ms'' =
          Some (PStr (upload_media_duration_ms (length_str obj)))"
    by (simp add: rupload_params_def)
  then show ?thesis by (simp add: strip)
qed

section \<open>Finishing and configuring a video\<close>

text \<open>
  Both steps, in full: without one of the listed keys the \<^verbatim>\<open>pop\<close> raises before any
  request; with all of them, one request carries the dictionary without them.
\<close>

lemma finish_video_upload_eq:
  "finish_video_upload e obj w =
     (if set finish_removed \<subseteq> dict_keys (as_dict obj)
      then (let d = filter (\<lambda>kv. fst kv \<notin> set finish_removed) (as_dict obj)
            in (map_sum id (\<lambda>_. ()) (respond e (trace w) (upload_finish_request d)),
                w\<lparr>trace := trace w @ [upload_finish_request d]\<rparr>))
      else (Inl KeyError, w))"
proof -
  have "distinct finish_removed" by (simp add: finish_removed_def)
  then show ?thesis
    by (simp add: finish_video_upload_def remove_from_dict_eq request_def Let_def
             split: sum.splits)
qed

lemma configure_video_eq:
  "configure_video e obj w =
     (if set configure_removed \<subseteq> dict_keys (as_dict obj)
      then (let d = filter (\<lambda>kv. fst kv \<notin> set configure_removed) (as_dict obj)
            in (map_sum id (\<lambda>_. ()) (respond e (trace w) (upload_finish_request d)),
                w\<lparr>trace := trace w @ [upload_finish_request d]\<rparr>))
      else (Inl KeyError, w))"
proof -
  have "distinct configure_removed" by (simp add: configure_removed_def)
  then show ?thesis
    by (simp add: configure_video_def remove_from_dict_eq request_def Let_def
             split: sum.splits)
qed

text \<open>
  C1, amended. For every video object whose serialised dictionary holds the listed keys:
  the finish step sends the dictionary without path, thumbnail_path,
  creation_logger_session_id, multi_sharing, height, width, quality_info and
  pdg_hash_info, so audio_muted stays in its payload; the configure step sends the
  dictionary without path, thumbnail_path, audio_muted, height, width, quality_info and
  pdg_hash_info, so creation_logger_session_id and multi_sharing stay in its payload.
\<close>

theorem video_payload_removals:
  "({''path'', ''thumbnail_path'', ''creation_logger_session_id'', ''multi_sharing'',
     ''height'', ''width'', ''quality_info'', ''pdg_hash_info''} \<subseteq> dict_keys (as_dict obj)
    \<longrightarrow> trace (snd (finish_video_upload e obj w)) =
          trace w @ [upload_finish_request
            (filter (\<lambda>kv. fst kv \<notin> {''path'', ''thumbnail_path'',
                 ''creation_logger_session_id'', ''multi_sharing'', ''height'', ''width'',
                 ''quality_info'', ''pdg_hash_info''}) (as_dict obj))])
   \<and> ({''path'', ''thumbnail_path'', ''audio_muted'', ''height'', ''width'',
       ''quality_info'', ''pdg_hash_info''} \<subseteq> dict_keys (as_dict obj)
    \<longrightarrow> trace (snd (configure_video e obj w)) =
          trace w @ [upload_finish_request
            (filter (\<lambda>kv. fst kv \<notin> {''path'', ''thumbnail_path'', ''audio_muted'',
                 ''height'', ''width'', ''quality_info'', ''pdg_hash_info''}) (as_dict obj))])"
proof -
  have f: "set finish_removed = {''path'', ''thumbnail_path'', ''creation_logger_session_id'',
             ''multi_sharing'', ''height'', ''width'', ''quality_info'', ''pdg_hash_info''}"
    by (simp add: finish_removed_def)
  have c: "set configure_removed = {''path'', ''thumbnail_path'', ''audio_muted'', ''height'',
             ''width'', ''quality_info'', ''pdg_hash_info''}"
    by (simp add: configure_removed_def)
  show ?thesis
    unfolding finish_video_upload_eq configure_video_eq f c
    by (simp add: Let_def)
qed

theorem video_payload_removals_witness:
  "trace (snd (finish_video_upload example_env example_video world0)) =
     [upload_finish_request [(''caption'', ''hello''), (''audio_muted'', ''0'')]]
   \<and> trace (snd (configure_video example_env example_video world0)) =
     [upload_finish_request [(''caption'', ''hello''),
        (''creation_logger_session_id'', ''session-1''), (''multi_sharing'', ''1'')]]"
  using video_payload_removals [of example_video example_env world0]
  by (simp add: example_video_def dict_keys_def world0_def)

text \<open>
  Against C1 as it was stated: the finish payload keeps audio_muted, and the configure
  payload drops audio_muted while keeping creation_logger_session_id and multi_sharing.
\<close>

theorem video_payload_removals_counterexample:
  "map data (trace (snd (finish_video_upload example_env example_video world0))) =
     [FormData [(''caption'', ''hello''), (''audio_muted'', ''0'')]]
   \<and> map data (trace (snd (configure_video example_env example_video world0))) =
     [FormData [(''caption'', ''hello''), (''creation_logger_session_id'', ''session-1''),
                (''multi_sharing'', ''1'')]]"
  by (simp add: finish_video_upload_eq configure_video_eq finish_removed_def
        configure_removed_def example_video_def dict_keys_def world0_def Let_def
        upload_finish_request_def)

section \<open>Image types\<close>

lemma split_char_length: "length (split_char sep s) = Suc (count_list s sep)"
  by (induction s) (auto split: list.splits)

lemma split_char_nonempty: "split_char sep s \<noteq> []"
  using split_char_length [of sep s] by auto

lemma split_char_no_sep: "sep \<notin> set s \<Longrightarrow> split_char sep s = [s]"
  by (induction s) auto

lemma last_split_char_Cons:
  assumes "sep \<in> set s"
  shows "last (split_char sep (c # s)) = last (split_char sep s)"
proof (cases "c = sep")
  case True
  then show ?thesis by (simp add: split_char_nonempty)
next
  case False
  from assms have "count_list s sep \<noteq> 0" by (simp add: count_list_0_iff)
  then have "2 \<le> length (split_char sep s)" by (simp add: split_char_length)
  then obtain w v ws where "split_char sep s = w # v # ws"
    by (cases "split_char sep s"; cases "tl (split_char sep s)") auto
  with False show ?thesis by simp
qed

lemma last_split_char_append:
  "sep \<notin> set ys \<Longrightarrow> last (split_char sep (xs @ sep # ys)) = ys"
proof (induction xs)
  case Nil
  then show ?case by (simp add: split_char_no_sep)
next
  case (Cons x xs)
  have "sep \<in> set (xs @ sep # ys)" by simp
  then have "last (split_char sep (x # xs @ sep # ys)) = last (split_char sep (xs @ sep # ys))"
    by (rule last_split_char_Cons)
  with Cons show ?case by simp
qed

lemma get_image_type_ext:
  "CHR ''.'' \<notin> set ext \<Longrightarrow> get_image_type (StrPath (stem @ CHR ''.'' # ext)) = ext"
  by (simp add: last_split_char_append)

section \<open>The thumbnail step\<close>

text \<open>
  \<^verbatim>\<open>_upload_video_thumbnail\<close> in full. The file is opened (for its length) before the
  image type is looked at, and both happen before the first request.
\<close>

lemma upload_video_thumbnail_eq:
  "upload_video_thumbnail e obj hdrs w =
     (let nm = uuid4 e (uuids_drawn w);
          wid = uuid4 e (Suc (uuids_drawn w));
          ty = get_image_type (thumbnail_path obj);
          w1 = w\<lparr>uuids_drawn := Suc (uuids_drawn w)\<rparr>;
          w2 = w\<lparr>uuids_drawn := Suc (Suc (uuids_drawn w))\<rparr>
      in case files e (path_text (thumbnail_path obj)) of
           None \<Rightarrow> (Inl FileNotFoundError, w1)
         | Some content \<Rightarrow>
             if ty \<noteq> ''jpg'' \<and> ty \<noteq> ''jpeg'' then (Inl ValueError, w1)
             else
               (let ending = end_request nm hdrs;
                    upload = upload_image_request e content wid (str_int (int (length content)))
                               nm (''image/'' @ ty) (session_id e) (time_now e) (Some 0)
                in case respond e (trace w) ending of
                     Inl err \<Rightarrow> (Inl err, w2\<lparr>trace := trace w @ [ending]\<rparr>)
                   | Inr _ \<Rightarrow>
                       (map_sum id (\<lambda>_. ()) (respond e (trace w @ [ending]) upload),
                        w2\<lparr>trace := trace w @ [ending, upload]\<rparr>)))"
  by (auto simp: upload_video_thumbnail_def upload_image_def request_def gen_uuid_def Let_def
           split: option.splits sum.splits prod.splits)


text \<open>
  C6, amended. For every thumbnail path that is a string and names a readable file: when
  the image type read from its extension is neither jpg nor jpeg, as for every path
  ending in .png or .gif, the step raises ValueError and has issued no request; when the
  path ends in .jpg or .jpeg, the step issues the End-phase request and, once that
  request is answered, the image upload of the thumbnail right after it.
\<close>

theorem upload_video_thumbnail_validation:
  assumes "thumbnail_path obj = StrPath p" and "files e p = Some content"
  shows "(get_image_type (thumbnail_path obj) \<notin> {''jpg'', ''jpeg''} \<longrightarrow>
            fst (upload_video_thumbnail e obj hdrs w) = Inl ValueError
            \<and> trace (snd (upload_video_thumbnail e obj hdrs w)) = trace w)
       \<and> ((\<exists>stem. p = stem @ ''.png'' \<or> p = stem @ ''.gif'') \<longrightarrow>
            fst (upload_video_thumbnail e obj hdrs w) = Inl ValueError
            \<and> trace (snd (upload_video_thumbnail e obj hdrs w)) = trace w)
       \<and> ((\<exists>stem. p = stem @ ''.jpg'' \<or> p = stem @ ''.jpeg'') \<longrightarrow>
            take (Suc (length (trace w))) (trace (snd (upload_video_thumbnail e obj hdrs w))) =
              trace w @ [end_request (uuid4 e (uuids_drawn w)) hdrs]
            \<and> ((\<exists>resp. respond e (trace w) (end_request (uuid4 e (uuids_drawn w)) hdrs) = Inr resp)
                 \<longrightarrow> trace (snd (upload_video_thumbnail e obj hdrs w)) =
                       trace w @ [end_request (uuid4 e (uuids_drawn w)) hdrs,
                                  upload_image_request e content (uuid4 e (Suc (uuids_drawn w)))
                                    (str_int (int (length content))) (uuid4 e (uuids_drawn w))
                                    (''image/'' @ get_image_type (thumbnail_path obj))
                                    (session_id e) (time_now e) (Some 0)]))"
proof -
  have png: "get_image_type (StrPath (stem @ ''.png'')) = ''png''" for stem
    using get_image_type_ext [of "''png''" stem] by simp
  have gif: "get_image_type (StrPath (stem @ ''.gif'')) = ''gif''" for stem
    using get_image_type_ext [of "''gif''" stem] by simp
  have jpg: "get_image_type (StrPath (stem @ ''.jpg'')) = ''jpg''" for stem
    using get_image_type_ext [of "''jpg''" stem] by simp
  have jpeg: "get_image_type (StrPath (stem @ ''.jpeg'')) = ''jpeg''" for stem
    using get_image_type_ext [of "''jpeg''" stem] by simp
  have invalid: "fst (upload_video_thumbnail e obj hdrs w) = Inl ValueError
                 \<and> trace (snd (upload_video_thumbnail e obj hdrs w)) = trace w"
    if "get_image_type (thumbnail_path obj) \<notin> {''jpg'', ''jpeg''}"
    using that assms by (simp add: upload_video_thumbnail_eq Let_def)
  have valid: "take (Suc (length (trace w))) (trace (snd (upload_video_thumbnail e obj hdrs w))) =
              trace w @ [end_request (uuid4 e (uuids_drawn w)) hdrs]
            \<and> ((\<exists>resp. respond e (trace w) (end_request (uuid4 e (uuids_drawn w)) hdrs) = Inr resp)
                 \<longrightarrow> trace (snd (upload_video_thumbnail e obj hdrs w)) =
                       trace w @ [end_request (uuid4 e (uuids_drawn w)) hdrs,
                                  upload_image_request e content (uuid4 e (Suc (uuids_drawn w)))
                                    (str_int (int (length content))) (uuid4 e (uuids_drawn w))
                                    (''image/'' @ get_image_type (thumbnail_path obj))
                                    (session_id e) (time_now e) (Some 0)])"
    if "get_image_type (thumbnail_path obj) \<in> {''jpg'', ''jpeg''}"
    using that assms
    by (auto simp: upload_video_thumbnail_eq Let_def split: sum.splits)
  show ?thesis
  proof (intro conjI impI)
    assume "get_image_type (thumbnail_path obj) \<notin> {''jpg'', ''jpeg''}"
    then show "fst (upload_video_thumbnail e obj hdrs w) = Inl ValueError"
      and "trace (snd (upload_video_thumbnail e obj hdrs w)) = trace w"
      using invalid by simp_all
  next
    assume "\<exists>stem. p = stem @ ''.png'' \<or> p = stem @ ''.gif''"
    then have "get_image_type (thumbnail_path obj) \<notin> {''jpg'', ''jpeg''}"
      using assms(1) png gif by auto
    then show "fst (upload_video_thumbnail e obj hdrs w) = Inl ValueError"
      and "trace (snd (upload_video_thumbnail e obj hdrs w)) = trace w"
      using invalid by simp_all
  next
    assume "\<exists>stem. p = stem @ ''.jpg'' \<or> p = stem @ ''.jpeg''"
    then have ok: "get_image_type (thumbnail_path obj) \<in> {''jpg'', ''jpeg''}"
      using assms(1) jpg jpeg by auto
    from valid [OF ok]
    show "take (Suc (length (trace w))) (trace (snd (upload_video_thumbnail e obj hdrs w))) =
              trace w @ [end_request (uuid4 e (uuids_drawn w)) hdrs]"
      by simp
    assume "\<exists>resp. respond e (trace w) (end_request (uuid4 e (uuids_drawn w)) hdrs) = Inr resp"
    with valid [OF ok]
    show "trace (snd (upload_video_thumbnail e obj hdrs w)) =
                       trace w @ [end_request (uuid4 e (uuids_drawn w)) hdrs,
                                  upload_image_request e content (uuid4 e (Suc (uuids_drawn w)))
                                    (str_int (int (length content))) (uuid4 e (uuids_drawn w))
                                    (''image/'' @ get_image_type (thumbnail_path obj))
                                    (session_id e) (time_now e) (Some 0)]"
      by simp
  qed
qed

lemma example_files_simps:
  "files example_env ''thumb.jpg'' = Some [1, 2, 3]"
  "files example_env ''thumb.png'' = Some [4, 5]"
  "files example_env ''missing.png'' = None"
  by (simp_all add: example_env_def example_files_def)

lemma get_image_type_examples:
  "get_image_type (StrPath ''thumb.jpg'') = ''jpg''"
  "get_image_type (StrPath ''thumb.png'') = ''png''"
  "path_suffix ''thumb.jpg'' = ''.jpg''"
  by (simp_all add: path_suffix_def path_name_def Let_def)

theorem upload_video_thumbnail_validation_witness:
  "fst (upload_video_thumbnail example_env (example_video\<lparr>thumbnail_path := StrPath ''thumb.png''\<rparr>)
          [(''stream_id'', PStr ''stream-1'')] world0) = Inl ValueError
   \<and> trace (snd (upload_video_thumbnail example_env
          (example_video\<lparr>thumbnail_path := StrPath ''thumb.png''\<rparr>)
          [(''stream_id'', PStr ''stream-1'')] world0)) = []
   \<and> trace (snd (upload_video_thumbnail example_env example_video
          [(''stream_id'', PStr ''stream-1'')] world0)) =
       [end_request ''uuid-0'' [(''stream_id'', PStr ''stream-1'')],
        upload_image_request example_env [1, 2, 3] ''uuid-1'' ''3'' ''uuid-0'' ''image/jpg''
          ''session-1'' ''1600000000.0'' (Some 0)]"
proof -
  have png: "\<exists>stem. ''thumb.png'' = stem @ ''.png'' \<or> ''thumb.png'' = stem @ ''.gif''"
    by (rule exI [of _ "''thumb''"]) simp
  have jpg: "\<exists>stem. ''thumb.jpg'' = stem @ ''.jpg'' \<or> ''thumb.jpg'' = stem @ ''.jpeg''"
    by (rule exI [of _ "''thumb''"]) simp
  have answered: "\<exists>resp. respond example_env (trace world0)
          (end_request (uuid4 example_env (uuids_drawn world0)) [(''stream_id'', PStr ''stream-1'')])
          = Inr resp"
    by (simp add: example_env_def)
  have ids: "uuid4 example_env (uuids_drawn world0) = ''uuid-0''"
    "uuid4 example_env (Suc (uuids_drawn world0)) = ''uuid-1''"
    "str_int 3 = ''3''"
    "session_id example_env = ''session-1''" "time_now example_env = ''1600000000.0''"
    "trace world0 = []"
    by (simp_all add: example_env_def world0_def str_nat.simps str_int_def digit_char_def)
  from upload_video_thumbnail_validation
         [of "example_video\<lparr>thumbnail_path := StrPath ''thumb.png''\<rparr>" "''thumb.png''"
             example_env "[4, 5]" "[(''stream_id'', PStr ''stream-1'')]" world0]
       png
  have a: "fst (upload_video_thumbnail example_env
             (example_video\<lparr>thumbnail_path := StrPath ''thumb.png''\<rparr>)
             [(''stream_id'', PStr ''stream-1'')] world0) = Inl ValueError
        \<and> trace (snd (upload_video_thumbnail example_env
             (example_video\<lparr>thumbnail_path := StrPath ''thumb.png''\<rparr>)
             [(''stream_id'', PStr ''stream-1'')] world0)) = []"
    by (simp add: example_files_simps ids)
  from upload_video_thumbnail_validation
         [of example_video "''thumb.jpg''" example_env "[1, 2, 3]"
             "[(''stream_id'', PStr ''stream-1'')]" world0]
       jpg answered
  have b: "trace (snd (upload_video_thumbnail example_env example_video
          [(''stream_id'', PStr ''stream-1'')] world0)) =
       [end_request ''uuid-0'' [(''stream_id'', PStr ''stream-1'')],
        upload_image_request example_env [1, 2, 3] ''uuid-1'' ''3'' ''uuid-0'' ''image/jpg''
          ''session-1'' ''1600000000.0'' (Some 0)]"
    by (simp add: example_files_simps ids example_video_def get_image_type_examples)
  from a b show ?thesis by simp
qed

text \<open>
  Against C6 as it was stated: a path ending in .png that names no readable file raises
  FileNotFoundError, not the validation error; and for the readable thumb.jpg given as a
  \<open>Path\<close>, \<open>get_image_type\<close> returns the suffix with its dot, so the step raises
  ValueError instead of proceeding.
\<close>

theorem upload_video_thumbnail_validation_counterexample:
  "upload_video_thumbnail example_env (example_video\<lparr>thumbnail_path := StrPath ''missing.png''\<rparr>)
      [(''stream_id'', PStr ''stream-1'')] world0 =
     (Inl FileNotFoundError, \<lparr>trace = [], uuids_drawn = 1\<rparr>)
   \<and> files example_env ''thumb.jpg'' = Some [1, 2, 3]
   \<and> upload_video_thumbnail example_env (example_video\<lparr>thumbnail_path := PathObj ''thumb.jpg''\<rparr>)
      [(''stream_id'', PStr ''stream-1'')] world0 =
     (Inl ValueError, \<lparr>trace = [], uuids_drawn = 1\<rparr>)"
  by (simp add: upload_video_thumbnail_eq Let_def example_files_simps get_image_type_examples
        world0_def)


section \<open>The quality of an uploaded image\<close>

lemma upload_image_headers_params:
  "map_of (upload_image_headers e wid len nm ty sid uid quality) ''x-instagram-rupload-params'' =
     Some (PStr (json_dumps e (PDict (build_default_rupload_params (json_dumps e) uid
                                        (quality_or_70 quality)))))"
  by (simp add: upload_image_headers_def)

text \<open>
  C10. \<open>upload_image\<close> replaces a falsy quality, \<open>0\<close> as well as \<open>None\<close>, with 70:
  the \<open>x-instagram-rupload-params\<close> header of its request then holds the parameters
  built for quality 70, whose image compression has quality "70". The thumbnail step
  passes quality 0, so every image upload it issues carries these parameters.
\<close>

theorem upload_image_falsy_quality:
  "(quality = None \<or> quality = Some 0 \<longrightarrow>
      (\<forall>content. files e (path_text p) = Some content \<longrightarrow>
         (\<exists>hs. trace (snd (upload_image e p wid len nm ty sid uid quality w)) =
                 trace w @ [\<lparr>endpoint = ''https://i.instagram.com/rupload_igphoto/'' @ nm,
                             meth = POST, headers = Some hs, query = None,
                             data = RawData content, signed = False\<rparr>]
             \<and> map_of hs ''x-instagram-rupload-params'' =
                 Some (PStr (json_dumps e (PDict
                   (build_default_rupload_params (json_dumps e) uid 70)))))))
   \<and> map_of (build_default_rupload_params (json_dumps e) uid 70) ''image_compression'' =
       Some (PStr (json_dumps e (PDict [(''lib_name'', PStr ''moz''),
                                        (''lib_version'', PStr ''3.1.m''),
                                        (''quality'', PStr ''70'')])))
   \<and> (\<forall>r \<in> set (drop (length (trace w)) (trace (snd (upload_video_thumbnail e obj hdrs w)))).
         r = end_request (uuid4 e (uuids_drawn w)) hdrs
         \<or> (\<exists>hs. headers r = Some hs
               \<and> map_of hs ''x-instagram-rupload-params'' =
                   Some (PStr (json_dumps e (PDict
                     (build_default_rupload_params (json_dumps e) (time_now e) 70))))))"
proof (intro conjI impI allI)
  fix content
  assume q: "quality = None \<or> quality = Some 0"
    and f: "files e (path_text p) = Some content"
  from q have "quality_or_70 quality = 70"
    by (auto simp: quality_or_70_def)
  then have "map_of (upload_image_headers e wid len nm ty sid uid quality)
               ''x-instagram-rupload-params'' =
             Some (PStr (json_dumps e (PDict
               (build_default_rupload_params (json_dumps e) uid 70))))"
    by (simp add: upload_image_headers_params)
  moreover from f
  have "trace (snd (upload_image e p wid len nm ty sid uid quality w)) =
          trace w @ [\<lparr>endpoint = ''https://i.instagram.com/rupload_igphoto/'' @ nm,
                      meth = POST,
                      headers = Some (upload_image_headers e wid len nm ty sid uid quality),
                      query = None, data = RawData content, signed = False\<rparr>]"
    by (simp add: upload_image_def request_def upload_image_request_def)
  ultimately
  show "\<exists>hs. trace (snd (upload_image e p wid len nm ty sid uid quality w)) =
                 trace w @ [\<lparr>endpoint = ''https://i.instagram.com/rupload_igphoto/'' @ nm,
                             meth = POST, headers = Some hs, query = None,
                             data = RawData content, signed = False\<rparr>]
             \<and> map_of hs ''x-instagram-rupload-params'' =
                 Some (PStr (json_dumps e (PDict
                   (build_default_rupload_params (json_dumps e) uid 70))))"
    by blast
next
  show "map_of (build_default_rupload_params (json_dumps e) uid 70) ''image_compression'' =
       Some (PStr (json_dumps e (PDict [(''lib_name'', PStr ''moz''),
                                        (''lib_version'', PStr ''3.1.m''),
                                        (''quality'', PStr ''70'')])))"
    by (simp add: build_default_rupload_params_def str_int_70)
next
  have zero: "quality_or_70 (Some 0) = 70"
    by (simp add: quality_or_70_def)
  show "\<forall>r \<in> set (drop (length (trace w)) (trace (snd (upload_video_thumbnail e obj hdrs w)))).
         r = end_request (uuid4 e (uuids_drawn w)) hdrs
         \<or> (\<exists>hs. headers r = Some hs
               \<and> map_of hs ''x-instagram-rupload-params'' =
                   Some (PStr (json_dumps e (PDict
                     (build_default_rupload_params (json_dumps e) (time_now e) 70)))))"
    by (auto simp: upload_video_thumbnail_eq Let_def upload_image_request_def
          upload_image_headers_params zero
          split: option.splits sum.splits)
qed

theorem upload_image_falsy_quality_witness:
  "(\<exists>hs. trace (snd (upload_image example_env (StrPath ''photo.jpg'') ''wf-1'' ''1'' ''nm''
                        ''image/jpg'' ''session-1'' ''17'' (Some 0) world0)) =
            [\<lparr>endpoint = ''https://i.instagram.com/rupload_igphoto/nm'', meth = POST,
              headers = Some hs, query = None, data = RawData [6], signed = False\<rparr>]
         \<and> map_of hs ''x-instagram-rupload-params'' =
             Some (PStr (json_dumps example_env (PDict
               (build_default_rupload_params (json_dumps example_env) ''17'' 70)))))
   \<and> trace (snd (upload_video_thumbnail example_env example_video
                   [(''stream_id'', PStr ''stream-1'')] world0)) =
       [end_request ''uuid-0'' [(''stream_id'', PStr ''stream-1'')],
        upload_image_request example_env [1, 2, 3] ''uuid-1'' ''3'' ''uuid-0'' ''image/jpg''
          ''session-1'' ''1600000000.0'' (Some 0)]
   \<and> (\<exists>hs. headers (upload_image_request example_env [1, 2, 3] ''uuid-1'' ''3'' ''uuid-0''
                      ''image/jpg'' ''session-1'' ''1600000000.0'' (Some 0)) = Some hs
         \<and> map_of hs ''x-instagram-rupload-params'' =
             Some (PStr (json_dumps example_env (PDict
               (build_default_rupload_params (json_dumps example_env)
                  ''1600000000.0'' 70)))))"
proof -
  have f: "files example_env (path_text (StrPath ''photo.jpg'')) = Some [6]"
    by (simp add: example_env_def example_files_def)
  have ids: "uuid4 example_env (uuids_drawn world0) = ''uuid-0''"
    "uuid4 example_env 0 = ''uuid-0''" "uuid4 example_env (Suc 0) = ''uuid-1''"
    "time_now example_env = ''1600000000.0''" "session_id example_env = ''session-1''"
    "trace world0 = []" "uuids_drawn world0 = 0" "str_int 3 = ''3''"
    by (simp_all add: example_env_def world0_def str_nat.simps str_int_def digit_char_def)
  have answered: "respond example_env tr r = Inr (Some example_answer)" for tr r
    by (simp add: example_env_def)
  have tr: "trace (snd (upload_video_thumbnail example_env example_video
                   [(''stream_id'', PStr ''stream-1'')] world0)) =
       [end_request ''uuid-0'' [(''stream_id'', PStr ''stream-1'')],
        upload_image_request example_env [1, 2, 3] ''uuid-1'' ''3'' ''uuid-0'' ''image/jpg''
          ''session-1'' ''1600000000.0'' (Some 0)]"
    by (simp add: upload_video_thumbnail_eq Let_def example_files_simps ids answered
          example_video_def get_image_type_examples)
  have differ: "upload_image_request example_env [1, 2, 3] ''uuid-1'' ''3'' ''uuid-0''
                  ''image/jpg'' ''session-1'' ''1600000000.0'' (Some 0)
                \<noteq> end_request ''uuid-0'' [(''stream_id'', PStr ''stream-1'')]"
    by (simp add: upload_image_request_def end_request_def)
  note inst = upload_image_falsy_quality
         [of "Some 0" example_env "StrPath ''photo.jpg''" "''wf-1''" "''1''" "''nm''"
             "''image/jpg''" "''session-1''" "''17''" world0 example_video
             "[(''stream_id'', PStr ''stream-1'')]"]
  from inst f
  have a: "\<exists>hs. trace (snd (upload_image example_env (StrPath ''photo.jpg'') ''wf-1'' ''1'' ''nm''
                        ''image/jpg'' ''session-1'' ''17'' (Some 0) world0)) =
            [\<lparr>endpoint = ''https://i.instagram.com/rupload_igphoto/nm'', meth = POST,
              headers = Some hs, query = None, data = RawData [6], signed = False\<rparr>]
         \<and> map_of hs ''x-instagram-rupload-params'' =
             Some (PStr (json_dumps example_env (PDict
               (build_default_rupload_params (json_dumps example_env) ''17'' 70))))"
    by (simp add: ids)
  from inst
  have "\<forall>r \<in> set (drop (length (trace world0))
                    (trace (snd (upload_video_thumbnail example_env example_video
                              [(''stream_id'', PStr ''stream-1'')] world0)))).
         r = end_request (uuid4 example_env (uuids_drawn world0))
               [(''stream_id'', PStr ''stream-1'')]
         \<or> (\<exists>hs. headers r = Some hs
               \<and> map_of hs ''x-instagram-rupload-params'' =
                   Some (PStr (json_dumps example_env (PDict
                     (build_default_rupload_params (json_dumps example_env)
                        (time_now example_env) 70)))))"
    by blast
  with tr differ
  have b: "\<exists>hs. headers (upload_image_request example_env [1, 2, 3] ''uuid-1'' ''3'' ''uuid-0''
                      ''image/jpg'' ''session-1'' ''1600000000.0'' (Some 0)) = Some hs
         \<and> map_of hs ''x-instagram-rupload-params'' =
             Some (PStr (json_dumps example_env (PDict
               (build_default_rupload_params (json_dumps example_env)
                  ''1600000000.0'' 70))))"
    by (simp add: ids)
  from a tr b show ?thesis by blast
qed

section \<open>Location lookup\<close>

text \<open>
  \<^verbatim>\<open>_request_fb_places_id\<close> in full: the query it sends, and the reading of the
  response.
\<close>

lemma request_fb_places_id_eq:
  "request_fb_places_id e obj w =
     (if lat obj = None \<or> lng obj = None then
        (case name obj of
           None \<Rightarrow> (Inl ValueError, w)
         | Some n \<Rightarrow>
             (let q = [(''search_query'', PStr n), (''rankToken'', PStr (uuid4 e (uuids_drawn w)))]
              in (and_then (respond e (trace w) (location_search q)) (venue_external_id e),
                  w\<lparr>uuids_drawn := Suc (uuids_drawn w), trace := trace w @ [location_search q]\<rparr>)))
      else
        (let q = (case name obj of
                    None \<Rightarrow> [(''latitude'', the (lat obj)), (''longitude'', the (lng obj))]
                  | Some n \<Rightarrow>
                      if n \<noteq> [] then [(''latitude'', the (lat obj)), (''longitude'', the (lng obj)),
                                        (''search_query'', PStr n)]
                      else [(''latitude'', the (lat obj)), (''longitude'', the (lng obj))])
         in (and_then (respond e (trace w) (location_search q)) (venue_external_id e),
             w\<lparr>trace := trace w @ [location_search q]\<rparr>)))"
  by (auto simp: request_fb_places_id_def request_def gen_uuid_def Let_def
           split: option.splits)

lemma venue_external_id_ok:
  assumes "map_of d ''status'' = Some (PStr ''ok'')"
    and "map_of d ''venues'' = Some (PList (PDict venue # venues))"
    and "map_of venue ''external_id'' = Some x"
  shows "venue_external_id e (Some (PDict d)) = Inr (py_str (py_repr e) x)"
  using assms by (simp add: venue_external_id_def and_then_def resp_json_def)

lemma venue_external_id_bad:
  assumes "map_of d ''status'' = Some status" and "status \<noteq> PStr ''ok''"
  shows "venue_external_id e (Some (PDict d)) = Inl BadResponse"
  using assms by (simp add: venue_external_id_def and_then_def resp_json_def)

lemma venue_external_id_empty:
  assumes "map_of d ''status'' = Some (PStr ''ok'')"
    and "map_of d ''venues'' = Some (PList [])"
  shows "venue_external_id e (Some (PDict d)) = Inl IndexError"
  using assms by (simp add: venue_external_id_def and_then_def resp_json_def)

text \<open>
  C2, amended. For every location: if the name is absent and the latitude or the
  longitude is absent, the lookup raises ValueError and issues no request; otherwise it
  issues exactly one location-search request, by latitude and longitude when both are
  present and else by name with a rank token. If the response has status "ok" and a
  venue list whose first venue has an \<open>external_id\<close>, the result is that identifier as
  text ("123" for "123"); if its status is not "ok", the lookup raises BadResponse. No
  other request is issued in any of these cases.
\<close>

theorem request_fb_places_id_resolution:
  "(name obj = None \<and> (lat obj = None \<or> lng obj = None) \<longrightarrow>
      request_fb_places_id e obj w = (Inl ValueError, w))
   \<and> (name obj \<noteq> None \<or> (lat obj \<noteq> None \<and> lng obj \<noteq> None) \<longrightarrow>
      (\<exists>q. trace (snd (request_fb_places_id e obj w)) = trace w @ [location_search q]
         \<and> (lat obj \<noteq> None \<and> lng obj \<noteq> None \<longrightarrow>
              map_of q ''latitude'' = lat obj \<and> map_of q ''longitude'' = lng obj
              \<and> map_of q ''rankToken'' = None)
         \<and> (lat obj = None \<or> lng obj = None \<longrightarrow>
              q = [(''search_query'', PStr (the (name obj))),
                   (''rankToken'', PStr (uuid4 e (uuids_drawn w)))])
         \<and> (\<forall>d venue venues x.
               respond e (trace w) (location_search q) = Inr (Some (PDict d))
               \<and> map_of d ''status'' = Some (PStr ''ok'')
               \<and> map_of d ''venues'' = Some (PList (PDict venue # venues))
               \<and> map_of venue ''external_id'' = Some x
               \<longrightarrow> fst (request_fb_places_id e obj w) = Inr (py_str (py_repr e) x))
         \<and> (\<forall>d status.
               respond e (trace w) (location_search q) = Inr (Some (PDict d))
               \<and> map_of d ''status'' = Some status \<and> status \<noteq> PStr ''ok''
               \<longrightarrow> fst (request_fb_places_id e obj w) = Inl BadResponse)))
   \<and> py_str (py_repr e) (PStr ''123'') = ''123''"
proof (intro conjI impI)
  assume "name obj = None \<and> (lat obj = None \<or> lng obj = None)"
  then show "request_fb_places_id e obj w = (Inl ValueError, w)"
    by (auto simp: request_fb_places_id_eq)
next
  assume a: "name obj \<noteq> None \<or> (lat obj \<noteq> None \<and> lng obj \<noteq> None)"
  show "\<exists>q. trace (snd (request_fb_places_id e obj w)) = trace w @ [location_search q]
         \<and> (lat obj \<noteq> None \<and> lng obj \<noteq> None \<longrightarrow>
              map_of q ''latitude'' = lat obj \<and> map_of q ''longitude'' = lng obj
              \<and> map_of q ''rankToken'' = None)
         \<and> (lat obj = None \<or> lng obj = None \<longrightarrow>
              q = [(''search_query'', PStr (the (name obj))),
                   (''rankToken'', PStr (uuid4 e (uuids_drawn w)))])
         \<and> (\<forall>d venue venues x.
               respond e (trace w) (location_search q) = Inr (Some (PDict d))
               \<and> map_of d ''status'' = Some (PStr ''ok'')
               \<and> map_of d ''venues'' = Some (PList (PDict venue # venues))
               \<and> map_of venue ''external_id'' = Some x
               \<longrightarrow> fst (request_fb_places_id e obj w) = Inr (py_str (py_repr e) x))
         \<and> (\<forall>d status.
               respond e (trace w) (location_search q) = Inr (Some (PDict d))
               \<and> map_of d ''status'' = Some status \<and> status \<noteq> PStr ''ok''
               \<longrightarrow> fst (request_fb_places_id e obj w) = Inl BadResponse)"
  proof (cases "lat obj = None \<or> lng obj = None")
    case True
    with a obtain n where n: "name obj = Some n" by auto
    let ?q = "[(''search_query'', PStr n), (''rankToken'', PStr (uuid4 e (uuids_drawn w)))]"
    from True n have r: "request_fb_places_id e obj w =
        (and_then (respond e (trace w) (location_search ?q)) (venue_external_id e),
         w\<lparr>uuids_drawn := Suc (uuids_drawn w), trace := trace w @ [location_search ?q]\<rparr>)"
      by (auto simp: request_fb_places_id_eq Let_def)
    show ?thesis
      apply (rule exI [of _ ?q])
      using True n
      by (auto simp: r and_then_def venue_external_id_ok venue_external_id_bad)
  next
    case False
    let ?q = "(case name obj of
                    None \<Rightarrow> [(''latitude'', the (lat obj)), (''longitude'', the (lng obj))]
                  | Some n \<Rightarrow>
                      if n \<noteq> [] then [(''latitude'', the (lat obj)), (''longitude'', the (lng obj)),
                                        (''search_query'', PStr n)]
                      else [(''latitude'', the (lat obj)), (''longitude'', the (lng obj))])"
    from False have r: "request_fb_places_id e obj w =
        (and_then (respond e (trace w) (location_search ?q)) (venue_external_id e),
         w\<lparr>trace := trace w @ [location_search ?q]\<rparr>)"
      by (auto simp: request_fb_places_id_eq Let_def)
    have q: "map_of ?q ''latitude'' = lat obj \<and> map_of ?q ''longitude'' = lng obj
              \<and> map_of ?q ''rankToken'' = None"
      using False by (auto split: option.splits)
    show ?thesis
      apply (rule exI [of _ ?q])
      using False q
      by (auto simp: r and_then_def venue_external_id_ok venue_external_id_bad)
  qed
next
  show "py_str (py_repr e) (PStr ''123'') = ''123''" by simp
qed


theorem request_fb_places_id_resolution_witness:
  "request_fb_places_id example_env
       \<lparr>lat = None, lng = None, name = None, facebook_places_id = None\<rparr> world0 =
     (Inl ValueError, world0)
   \<and> trace (snd (request_fb_places_id example_env example_location world0)) =
       [location_search [(''search_query'', PStr ''Paris''), (''rankToken'', PStr ''uuid-0'')]]
   \<and> fst (request_fb_places_id example_env example_location world0) = Inr ''123''
   \<and> fst (request_fb_places_id error_env example_location world0) = Inl BadResponse"
proof -
  have ids: "uuid4 example_env (uuids_drawn world0) = ''uuid-0''"
    "uuid4 error_env (uuids_drawn world0) = ''uuid-0''" "trace world0 = []"
    by (simp_all add: example_env_def error_env_def world0_def str_nat.simps digit_char_def)
  have named: "name example_location \<noteq> None \<or>
               (lat example_location \<noteq> None \<and> lng example_location \<noteq> None)"
    and nowhere: "lat example_location = None \<or> lng example_location = None"
    and paris: "name example_location = Some ''Paris''" "lat example_location = None"
    by (simp_all add: example_location_def)
  have answer: "respond example_env tr r = Inr (Some (PDict
                  [(''status'', PStr ''ok''),
                   (''venues'', PList [PDict [(''external_id'', PStr ''123'')]]),
                   (''stream_id'', PStr ''stream-1'')]))" for tr r
    by (simp add: example_env_def example_answer_def)
  have refusal: "respond error_env tr r = Inr (Some (PDict [(''status'', PStr ''error'')]))"
    for tr r
    by (simp add: error_env_def)
  from request_fb_places_id_resolution
         [of "\<lparr>lat = None, lng = None, name = None, facebook_places_id = None\<rparr>"
             example_env world0]
  have a: "request_fb_places_id example_env
             \<lparr>lat = None, lng = None, name = None, facebook_places_id = None\<rparr> world0 =
           (Inl ValueError, world0)"
    by simp
  from request_fb_places_id_resolution [of example_location example_env world0]
  have b: "trace (snd (request_fb_places_id example_env example_location world0)) =
             [location_search [(''search_query'', PStr ''Paris''), (''rankToken'', PStr ''uuid-0'')]]
           \<and> fst (request_fb_places_id example_env example_location world0) = Inr ''123''"
    by (simp add: named nowhere paris ids answer)
  from request_fb_places_id_resolution [of example_location error_env world0]
  have c: "fst (request_fb_places_id error_env example_location world0) = Inl BadResponse"
    by (simp add: named nowhere paris ids refusal)
  from a b c show ?thesis by simp
qed

text \<open>
  Against C2 as it was stated: with a latitude but neither longitude nor name, the lookup
  raises ValueError although not all three are absent; and a response with status "ok"
  and an empty venue list raises IndexError, not BadResponse.
\<close>

theorem request_fb_places_id_resolution_counterexample:
  "request_fb_places_id example_env
       \<lparr>lat = Some (PInt 52), lng = None, name = None, facebook_places_id = None\<rparr> world0 =
     (Inl ValueError, world0)
   \<and> fst (request_fb_places_id no_venue_env example_location world0) = Inl IndexError"
  by (simp add: request_fb_places_id_eq example_location_def no_venue_env_def Let_def
        and_then_def venue_external_id_empty)

section \<open>Publishing an image\<close>

lemma fill_device_fields:
  "fill_device e obj = Inr obj1 \<Longrightarrow>
     source_type obj1 = source_type obj \<and> location obj1 = location obj
     \<and> upload_id obj1 = upload_id obj \<and> as_dict obj1 = as_dict obj"
  by (auto simp: fill_device_def and_then_def split: if_splits sum.splits)

lemma upload_image_cases:
  assumes "upload_image e p wid len nm ty sid uid q w = (r, w')"
  shows "(r = Inl FileNotFoundError \<and> w' = w)
       \<or> (\<exists>content. files e (path_text p) = Some content
             \<and> r = respond e (trace w) (upload_image_request e content wid len nm ty sid uid q)
             \<and> w' = w\<lparr>trace := trace w @ [upload_image_request e content wid len nm ty sid uid q]\<rparr>)"
  using assms by (auto simp: upload_image_def request_def split: option.splits)

lemma request_fb_places_id_trace:
  "trace (snd (request_fb_places_id e loc w)) = trace w
   \<or> (\<exists>q. trace (snd (request_fb_places_id e loc w)) = trace w @ [location_search q])"
  by (auto simp: request_fb_places_id_eq Let_def split: option.splits)

lemma attach_location_cases:
  assumes "attach_location e obj d w = (r, w')"
  shows "(trace w' = trace w \<or> (\<exists>q. trace w' = trace w @ [location_search q]))
       \<and> (\<forall>obj2 d2. r = Inr (obj2, d2) \<longrightarrow> source_type obj2 = source_type obj)"
proof (cases "location obj")
  case None
  with assms show ?thesis by (auto simp: attach_location_def)
next
  case (Some loc)
  show ?thesis
  proof (cases "facebook_places_id loc = None \<or> facebook_places_id loc = Some []")
    case True
    obtain r1 w1 where r1: "request_fb_places_id e loc w = (r1, w1)"
      by (cases "request_fb_places_id e loc w")
    with request_fb_places_id_trace [of e loc w]
    have tr: "trace w1 = trace w \<or> (\<exists>q. trace w1 = trace w @ [location_search q])"
      by simp
    from assms Some True r1 have "w' = w1"
      by (auto simp: attach_location_def split: sum.splits)
    moreover from assms Some True r1
    have "\<forall>obj2 d2. r = Inr (obj2, d2) \<longrightarrow> source_type obj2 = source_type obj"
      by (auto simp: attach_location_def split: sum.splits)
    ultimately show ?thesis using tr by simp
  next
    case False
    with assms Some show ?thesis
      by (auto simp: attach_location_def)
  qed
qed

lemma configure_post_cases:
  "configure_post e obj d w =
     (if source_type obj = PostLocation_value e Feed
      then (respond e (trace w) (configure_request e ''media/configure/'' d),
            w\<lparr>trace := trace w @ [configure_request e ''media/configure/'' d]\<rparr>)
      else if source_type obj = PostLocation_value e Story
      then (respond e (trace w) (configure_request e ''media/configure_to_story/'' d),
            w\<lparr>trace := trace w @ [configure_request e ''media/configure_to_story/'' d]\<rparr>)
      else (Inl UnsupportedPostLocation, w))"
  by (simp add: configure_post_def request_def)

text \<open>
  How far \<open>post_post\<close> gets: it stops before any request, or after the upload and at
  most one location search, or it ends with the configure request of the target.
\<close>

lemma post_post_steps:
  assumes "post_post e obj quality w = (r, obj', w')"
  shows "(trace w' = trace w \<and> r \<in> {Inl ValueError, Inl KeyError, Inl FileNotFoundError})
       \<or> (\<exists>up loc.
             (\<exists>content wid len nm ty.
                up = upload_image_request e content wid len nm ty (session_id e) (upload_id obj)
                       quality)
             \<and> (loc = [] \<or> (\<exists>q. loc = [location_search q]))
             \<and> ((trace w' = trace w @ up # loc \<and> (\<exists>err. r = Inl err))
                 \<or> (\<exists>d. source_type obj = PostLocation_value e Feed
                        \<and> trace w' = trace w @ up # loc @ [configure_request e ''media/configure/'' d])
                 \<or> (\<exists>d. source_type obj \<noteq> PostLocation_value e Feed
                        \<and> source_type obj = PostLocation_value e Story
                        \<and> trace w' = trace w @ up # loc
                              @ [configure_request e ''media/configure_to_story/'' d])))"
  (is "?early \<or> (\<exists>up loc. ?U up \<and> ?L loc \<and> ?late up loc)")
proof (cases "fill_device e obj")
  case (Inl err)
  then have "err = ValueError"
    by (auto simp: fill_device_def and_then_def new_device_def split: if_splits option.splits)
  with Inl assms show ?thesis by (auto simp: post_post_def)
next
  case (Inr obj1)
  note obj1 = fill_device_fields [OF Inr]
  show ?thesis
  proof (cases "pop_image_fields (as_dict obj)")
    case (Inl err)
    then have "err = KeyError"
      by (auto simp: pop_image_fields_def and_then_def dict_pop_def
               split: sum.splits option.splits prod.splits)
    with Inl Inr assms show ?thesis by (auto simp: post_post_def)
  next
    case fields: (Inr t)
    obtain image_path waterfall_id entity_length entity_name entity_type d5
      where t: "t = (image_path, waterfall_id, entity_length, entity_name, entity_type, d5)"
      by (cases t) auto
    obtain r1 w1 where up: "upload_image e (StrPath image_path) waterfall_id entity_length
        entity_name entity_type (session_id e) (upload_id obj1) quality w = (r1, w1)"
      by (cases "upload_image e (StrPath image_path) waterfall_id entity_length
        entity_name entity_type (session_id e) (upload_id obj1) quality w")
    from upload_image_cases [OF up]
    consider (nofile) "r1 = Inl FileNotFoundError" "w1 = w"
      | (sent) content where "files e image_path = Some content"
          "r1 = respond e (trace w) (upload_image_request e content waterfall_id entity_length
                  entity_name entity_type (session_id e) (upload_id obj1) quality)"
          "w1 = w\<lparr>trace := trace w @ [upload_image_request e content waterfall_id entity_length
                  entity_name entity_type (session_id e) (upload_id obj1) quality]\<rparr>"
      by auto
    then show ?thesis
    proof cases
      case nofile
      with assms Inr fields t up show ?thesis by (auto simp: post_post_def)
    next
      case sent
      let ?up = "upload_image_request e content waterfall_id entity_length
                  entity_name entity_type (session_id e) (upload_id obj) quality"
      have U: "?U ?up" by blast
      from sent obj1 have w1: "trace w1 = trace w @ [?up]" by simp
      have enough: "?thesis" if "?L l" and "?late ?up l" for l
      proof -
        from U that have "?U ?up \<and> ?L l \<and> ?late ?up l" by simp
        then have "\<exists>up loc. ?U up \<and> ?L loc \<and> ?late up loc" by (intro exI)
        then show ?thesis by (rule disjI2)
      qed
      show ?thesis
      proof (cases r1)
        case (Inl err)
        with assms Inr fields t up have "r = Inl err" "w' = w1"
          by (auto simp: post_post_def)
        with w1 have "?late ?up []" by simp
        then show ?thesis by (intro enough [of "[]"]) simp_all
      next
        case uploaded: (Inr x)
        obtain r2 w2 where loc: "attach_location e obj1 d5 w1 = (r2, w2)"
          by (cases "attach_location e obj1 d5 w1")
        from attach_location_cases [OF loc] obtain l
          where l: "?L l" and w2: "trace w2 = trace w1 @ l"
            and src: "\<forall>obj2 d2. r2 = Inr (obj2, d2) \<longrightarrow> source_type obj2 = source_type obj1"
          by auto
        show ?thesis
        proof (cases r2)
          case (Inl err)
          with assms Inr fields t up uploaded loc have "r = Inl err" "w' = w2"
            by (auto simp: post_post_def)
          with w1 w2 have "?late ?up l" by simp
          with l show ?thesis by (intro enough [of l])
        next
          case located: (Inr u)
          obtain obj2 d6 where u: "u = (obj2, d6)" by (cases u)
          with located src obj1 have s2: "source_type obj2 = source_type obj" by simp
          from assms Inr fields t up uploaded loc located u
          have res: "(r, w') = configure_post e obj2 d6 w2"
            by (auto simp: post_post_def split: prod.splits)
          have "?late ?up l"
            using res w1 w2 s2
            by (auto simp: configure_post_cases split: if_splits)
          with l show ?thesis by (intro enough [of l])
        qed
      qed
    qed
  qed
qed


lemma endpoint_simps:
  "endpoint (upload_image_request e content wid len nm ty sid uid q) =
     ''https://i.instagram.com/rupload_igphoto/'' @ nm"
  "endpoint (location_search qs) = ''location_search''"
  "endpoint (configure_request e ep d) = ep"
  by (simp_all add: upload_image_request_def location_search_def configure_request_def)

lemma image_upload_calls_shape:
  assumes "\<exists>content wid len nm ty.
             up = upload_image_request e content wid len nm ty sid uid quality"
    and "loc = [] \<or> (\<exists>q. loc = [location_search q])"
    and "ep = ''media/configure/'' \<or> ep = ''media/configure_to_story/''"
  shows "image_upload_calls (up # loc @ [configure_request e ep d]) = [up]"
    and "image_upload_calls (up # loc) = [up]"
    and "calls_to ''media/configure/'' (up # loc) = []"
    and "calls_to ''media/configure_to_story/'' (up # loc) = []"
    and "calls_to ep (up # loc @ [configure_request e ep d]) = [configure_request e ep d]"
  using assms by (auto simp: image_upload_calls_def calls_to_def endpoint_simps)

lemma attach_location_none:
  "location obj1 = None \<Longrightarrow> attach_location e obj1 d w1 = (Inr (obj1, d), w1)"
  by (simp add: attach_location_def)

lemma attach_location_known:
  "location obj1 = Some loc \<Longrightarrow> facebook_places_id loc = Some pid \<Longrightarrow> pid \<noteq> [] \<Longrightarrow>
   attach_location e obj1 d w1 =
     (Inr (obj1\<lparr>location := Some loc\<rparr>,
           dict_set ''location'' (json_dumps e (PDict (location_attrs e loc))) d), w1)"
  by (simp add: attach_location_def)

text \<open>
  With a target that is neither Feed nor Story, a publish whose upload is answered and
  whose location block returns ends with the Exception of the last statement.
\<close>

lemma post_post_unsupported:
  assumes "source_type obj \<noteq> PostLocation_value e Feed"
      and "source_type obj \<noteq> PostLocation_value e Story"
      and dev: "fill_device e obj = Inr obj1"
      and "pop_image_fields (as_dict obj) = Inr (image_path, wid, len, nm, ty, d)"
      and "files e image_path = Some content"
      and "respond e (trace w)
            (upload_image_request e content wid len nm ty (session_id e) (upload_id obj) quality)
          = Inr uploaded"
      and loc: "attach_location e obj1 d
             (w\<lparr>trace := trace w @ [upload_image_request e content wid len nm ty (session_id e)
                                       (upload_id obj) quality]\<rparr>) = (Inr (obj2, d6), w2)"
  shows "post_post e obj quality w = (Inl UnsupportedPostLocation, obj2, w2)"
proof -
  from attach_location_cases [OF loc] fill_device_fields [OF dev]
  have "source_type obj2 = source_type obj" by simp
  with assms fill_device_fields [OF dev] show ?thesis
    by (simp add: post_post_def upload_image_def request_def configure_post_def)
qed

lemma post_post_no_location:
  assumes "source_type obj \<noteq> PostLocation_value e Feed"
      and "source_type obj \<noteq> PostLocation_value e Story"
      and dev: "fill_device e obj = Inr obj1"
      and "pop_image_fields (as_dict obj) = Inr (image_path, wid, len, nm, ty, d)"
      and "files e image_path = Some content"
      and "respond e (trace w)
            (upload_image_request e content wid len nm ty (session_id e) (upload_id obj) quality)
          = Inr uploaded"
      and "location obj = None"
  shows "post_post e obj quality w =
        (Inl UnsupportedPostLocation, obj1,
         w\<lparr>trace := trace w @ [upload_image_request e content wid len nm ty (session_id e)
                                   (upload_id obj) quality]\<rparr>)"
proof -
  from assms(7) fill_device_fields [OF dev] have "location obj1 = None" by simp
  from post_post_unsupported [OF assms(1-6) attach_location_none [OF this]]
  show ?thesis .
qed

lemma post_post_known_place:
  assumes "source_type obj \<noteq> PostLocation_value e Feed"
      and "source_type obj \<noteq> PostLocation_value e Story"
      and dev: "fill_device e obj = Inr obj1"
      and "pop_image_fields (as_dict obj) = Inr (image_path, wid, len, nm, ty, d)"
      and "files e image_path = Some content"
      and "respond e (trace w)
            (upload_image_request e content wid len nm ty (session_id e) (upload_id obj) quality)
          = Inr uploaded"
      and "location obj = Some loc" and "facebook_places_id loc = Some pid" and "pid \<noteq> []"
  shows "post_post e obj quality w =
        (Inl UnsupportedPostLocation, obj1\<lparr>location := Some loc\<rparr>,
         w\<lparr>trace := trace w @ [upload_image_request e content wid len nm ty (session_id e)
                                   (upload_id obj) quality]\<rparr>)"
proof -
  from assms(7) fill_device_fields [OF dev] have "location obj1 = Some loc" by simp
  from post_post_unsupported [OF assms(1-6) attach_location_known [OF this assms(8,9)]]
  show ?thesis .
qed

text \<open>
  C5. For every image publish through \<open>post_post\<close> that returns a response: with target
  location Feed it has issued exactly one image-upload call, first, and exactly one
  configure call, to media/configure/, last; with target location Story the configure
  call goes to media/configure_to_story/ instead (between the two there is at most the
  location search). With any other target location the publish fails and no configure
  call is issued; the configuration error comes after the upload; and it is the outcome
  of every such publish whose upload is answered and whose location block returns, be
  it without a location, with a location whose place is known (no lookup is made) or
  after a lookup.
\<close>

theorem post_post_calls:
  "(source_type obj = PostLocation_value e Feed
      \<and> (\<exists>resp. fst (post_post e obj quality w) = Inr resp) \<longrightarrow>
      (\<exists>up loc d.
         trace (snd (snd (post_post e obj quality w))) =
           trace w @ up # loc @ [configure_request e ''media/configure/'' d]
         \<and> (\<exists>content wid len nm ty.
               up = upload_image_request e content wid len nm ty (session_id e) (upload_id obj)
                      quality)
         \<and> (loc = [] \<or> (\<exists>q. loc = [location_search q]))
         \<and> image_upload_calls (up # loc @ [configure_request e ''media/configure/'' d]) = [up]
         \<and> calls_to ''media/configure/'' (up # loc @ [configure_request e ''media/configure/'' d])
             = [configure_request e ''media/configure/'' d]))
   \<and> (source_type obj = PostLocation_value e Story
      \<and> PostLocation_value e Story \<noteq> PostLocation_value e Feed
      \<and> (\<exists>resp. fst (post_post e obj quality w) = Inr resp) \<longrightarrow>
      (\<exists>up loc d.
         trace (snd (snd (post_post e obj quality w))) =
           trace w @ up # loc @ [configure_request e ''media/configure_to_story/'' d]
         \<and> (\<exists>content wid len nm ty.
               up = upload_image_request e content wid len nm ty (session_id e) (upload_id obj)
                      quality)
         \<and> (loc = [] \<or> (\<exists>q. loc = [location_search q]))
         \<and> image_upload_calls (up # loc @ [configure_request e ''media/configure_to_story/'' d])
             = [up]
         \<and> calls_to ''media/configure_to_story/''
               (up # loc @ [configure_request e ''media/configure_to_story/'' d])
             = [configure_request e ''media/configure_to_story/'' d]))
   \<and> (source_type obj \<noteq> PostLocation_value e Feed
      \<and> source_type obj \<noteq> PostLocation_value e Story \<longrightarrow>
      (\<exists>err. fst (post_post e obj quality w) = Inl err)
      \<and> calls_to ''media/configure/''
            (drop (length (trace w)) (trace (snd (snd (post_post e obj quality w))))) = []
      \<and> calls_to ''media/configure_to_story/''
            (drop (length (trace w)) (trace (snd (snd (post_post e obj quality w))))) = []
      \<and> (fst (post_post e obj quality w) = Inl UnsupportedPostLocation \<longrightarrow>
            (\<exists>up loc.
               trace (snd (snd (post_post e obj quality w))) = trace w @ up # loc
               \<and> (\<exists>content wid len nm ty.
                     up = upload_image_request e content wid len nm ty (session_id e)
                            (upload_id obj) quality)
               \<and> (loc = [] \<or> (\<exists>q. loc = [location_search q]))
               \<and> image_upload_calls (up # loc) = [up])))
   \<and> (source_type obj \<noteq> PostLocation_value e Feed
      \<and> source_type obj \<noteq> PostLocation_value e Story
      \<and> fill_device e obj = Inr obj1
      \<and> pop_image_fields (as_dict obj) = Inr (image_path, wid, len, nm, ty, d)
      \<and> files e image_path = Some content
      \<and> respond e (trace w)
            (upload_image_request e content wid len nm ty (session_id e) (upload_id obj) quality)
          = Inr uploaded
      \<and> attach_location e obj1 d
            (w\<lparr>trace := trace w @ [upload_image_request e content wid len nm ty (session_id e)
                                      (upload_id obj) quality]\<rparr>) = (Inr (obj2, d6), w2) \<longrightarrow>
      post_post e obj quality w = (Inl UnsupportedPostLocation, obj2, w2))
   \<and> (source_type obj \<noteq> PostLocation_value e Feed
      \<and> source_type obj \<noteq> PostLocation_value e Story
      \<and> fill_device e obj = Inr obj1
      \<and> pop_image_fields (as_dict obj) = Inr (image_path, wid, len, nm, ty, d)
      \<and> files e image_path = Some content
      \<and> respond e (trace w)
            (upload_image_request e content wid len nm ty (session_id e) (upload_id obj) quality)
          = Inr uploaded
      \<and> location obj = None \<longrightarrow>
      post_post e obj quality w =
        (Inl UnsupportedPostLocation, obj1,
         w\<lparr>trace := trace w @ [upload_image_request e content wid len nm ty (session_id e)
                                   (upload_id obj) quality]\<rparr>))
   \<and> (source_type obj \<noteq> PostLocation_value e Feed
      \<and> source_type obj \<noteq> PostLocation_value e Story
      \<and> fill_device e obj = Inr obj1
      \<and> pop_image_fields (as_dict obj) = Inr (image_path, wid, len, nm, ty, d)
      \<and> files e image_path = Some content
      \<and> respond e (trace w)
            (upload_image_request e content wid len nm ty (session_id e) (upload_id obj) quality)
          = Inr uploaded
      \<and> location obj = Some loc \<and> facebook_places_id loc = Some pid \<and> pid \<noteq> [] \<longrightarrow>
      post_post e obj quality w =
        (Inl UnsupportedPostLocation, obj1\<lparr>location := Some loc\<rparr>,
         w\<lparr>trace := trace w @ [upload_image_request e content wid len nm ty (session_id e)
                                   (upload_id obj) quality]\<rparr>))"
proof -
  obtain r obj' w' where run: "post_post e obj quality w = (r, obj', w')"
    by (cases "post_post e obj quality w")
  note steps = post_post_steps [OF run]
  have published: "\<exists>up loc d.
         trace w' = trace w @ up # loc @ [configure_request e ep d]
         \<and> (\<exists>content wid len nm ty.
               up = upload_image_request e content wid len nm ty (session_id e) (upload_id obj)
                      quality)
         \<and> (loc = [] \<or> (\<exists>q. loc = [location_search q]))
         \<and> image_upload_calls (up # loc @ [configure_request e ep d]) = [up]
         \<and> calls_to ep (up # loc @ [configure_request e ep d]) = [configure_request e ep d]"
    if ep: "ep = ''media/configure/'' \<or> ep = ''media/configure_to_story/''"
      and shape: "\<exists>up loc.
             (\<exists>content wid len nm ty.
                up = upload_image_request e content wid len nm ty (session_id e) (upload_id obj)
                       quality)
             \<and> (loc = [] \<or> (\<exists>q. loc = [location_search q]))
             \<and> (\<exists>d. trace w' = trace w @ up # loc @ [configure_request e ep d])"
    for ep
  proof -
    from shape obtain up loc d
      where U: "\<exists>content wid len nm ty.
                up = upload_image_request e content wid len nm ty (session_id e) (upload_id obj)
                       quality"
        and L: "loc = [] \<or> (\<exists>q. loc = [location_search q])"
        and tr: "trace w' = trace w @ up # loc @ [configure_request e ep d]"
      by blast
    note image_upload_calls_shape(1,5) [OF U L ep, of d]
    with U L tr show ?thesis by blast
  qed
  have feed: "\<exists>up loc d.
         trace w' = trace w @ up # loc @ [configure_request e ''media/configure/'' d]
         \<and> (\<exists>content wid len nm ty.
               up = upload_image_request e content wid len nm ty (session_id e) (upload_id obj)
                      quality)
         \<and> (loc = [] \<or> (\<exists>q. loc = [location_search q]))
         \<and> image_upload_calls (up # loc @ [configure_request e ''media/configure/'' d]) = [up]
         \<and> calls_to ''media/configure/'' (up # loc @ [configure_request e ''media/configure/'' d])
             = [configure_request e ''media/configure/'' d]"
    if "source_type obj = PostLocation_value e Feed" and "r = Inr resp" for resp
  proof -
    from steps that
    have "\<exists>up loc.
             (\<exists>content wid len nm ty.
                up = upload_image_request e content wid len nm ty (session_id e) (upload_id obj)
                       quality)
             \<and> (loc = [] \<or> (\<exists>q. loc = [location_search q]))
             \<and> (\<exists>d. trace w' = trace w @ up # loc @ [configure_request e ''media/configure/'' d])"
      by auto
    then show ?thesis by (intro published) simp_all
  qed
  have story: "\<exists>up loc d.
         trace w' = trace w @ up # loc @ [configure_request e ''media/configure_to_story/'' d]
         \<and> (\<exists>content wid len nm ty.
               up = upload_image_request e content wid len nm ty (session_id e) (upload_id obj)
                      quality)
         \<and> (loc = [] \<or> (\<exists>q. loc = [location_search q]))
         \<and> image_upload_calls (up # loc @ [configure_request e ''media/configure_to_story/'' d])
             = [up]
         \<and> calls_to ''media/configure_to_story/''
               (up # loc @ [configure_request e ''media/configure_to_story/'' d])
             = [configure_request e ''media/configure_to_story/'' d]"
    if "source_type obj = PostLocation_value e Story"
      and "PostLocation_value e Story \<noteq> PostLocation_value e Feed" and "r = Inr resp" for resp
  proof -
    from steps that
    have "\<exists>up loc.
             (\<exists>content wid len nm ty.
                up = upload_image_request e content wid len nm ty (session_id e) (upload_id obj)
                       quality)
             \<and> (loc = [] \<or> (\<exists>q. loc = [location_search q]))
             \<and> (\<exists>d. trace w' = trace w @ up # loc
                        @ [configure_request e ''media/configure_to_story/'' d])"
      by auto
    then show ?thesis by (intro published) simp_all
  qed
  have other: "(\<exists>err. r = Inl err)
      \<and> calls_to ''media/configure/'' (drop (length (trace w)) (trace w')) = []
      \<and> calls_to ''media/configure_to_story/'' (drop (length (trace w)) (trace w')) = []
      \<and> (r = Inl UnsupportedPostLocation \<longrightarrow>
            (\<exists>up loc.
               trace w' = trace w @ up # loc
               \<and> (\<exists>content wid len nm ty.
                     up = upload_image_request e content wid len nm ty (session_id e)
                            (upload_id obj) quality)
               \<and> (loc = [] \<or> (\<exists>q. loc = [location_search q]))
               \<and> image_upload_calls (up # loc) = [up]))"
    if "source_type obj \<noteq> PostLocation_value e Feed"
      and "source_type obj \<noteq> PostLocation_value e Story"
  proof -
    from steps that
    consider (early) "trace w' = trace w"
        "r \<in> {Inl ValueError, Inl KeyError, Inl FileNotFoundError}"
      | (late) up loc err where
        "\<exists>content wid len nm ty.
                up = upload_image_request e content wid len nm ty (session_id e) (upload_id obj)
                       quality"
        "loc = [] \<or> (\<exists>q. loc = [location_search q])"
        "trace w' = trace w @ up # loc" "r = Inl err"
      by blast
    then show ?thesis
    proof cases
      case early
      then show ?thesis by (auto simp: calls_to_def)
    next
      case late
      note c = image_upload_calls_shape(2,3,4) [OF late(1) late(2), of "''media/configure/''"]
      from late(1,2,3) c(1) have "\<exists>up loc.
               trace w' = trace w @ up # loc
               \<and> (\<exists>content wid len nm ty.
                     up = upload_image_request e content wid len nm ty (session_id e)
                            (upload_id obj) quality)
               \<and> (loc = [] \<or> (\<exists>q. loc = [location_search q]))
               \<and> image_upload_calls (up # loc) = [up]"
        by blast
      with late(3,4) c(2,3) show ?thesis by simp
    qed
  qed
  show ?thesis
    unfolding run fst_conv snd_conv
  proof (intro conjI)
    show "source_type obj = PostLocation_value e Feed \<and> (\<exists>resp. r = Inr resp) \<longrightarrow>
      (\<exists>up loc d.
         trace w' = trace w @ up # loc @ [configure_request e ''media/configure/'' d]
         \<and> (\<exists>content wid len nm ty.
               up = upload_image_request e content wid len nm ty (session_id e) (upload_id obj)
                      quality)
         \<and> (loc = [] \<or> (\<exists>q. loc = [location_search q]))
         \<and> image_upload_calls (up # loc @ [configure_request e ''media/configure/'' d]) = [up]
         \<and> calls_to ''media/configure/'' (up # loc @ [configure_request e ''media/configure/'' d])
             = [configure_request e ''media/configure/'' d])"
      by (intro impI, elim conjE exE) (rule feed)
    show "source_type obj = PostLocation_value e Story
      \<and> PostLocation_value e Story \<noteq> PostLocation_value e Feed
      \<and> (\<exists>resp. r = Inr resp) \<longrightarrow>
      (\<exists>up loc d.
         trace w' = trace w @ up # loc @ [configure_request e ''media/configure_to_story/'' d]
         \<and> (\<exists>content wid len nm ty.
               up = upload_image_request e content wid len nm ty (session_id e) (upload_id obj)
                      quality)
         \<and> (loc = [] \<or> (\<exists>q. loc = [location_search q]))
         \<and> image_upload_calls (up # loc @ [configure_request e ''media/configure_to_story/'' d])
             = [up]
         \<and> calls_to ''media/configure_to_story/''
               (up # loc @ [configure_request e ''media/configure_to_story/'' d])
             = [configure_request e ''media/configure_to_story/'' d])"
      by (intro impI, elim conjE exE) (rule story)
    show "source_type obj \<noteq> PostLocation_value e Feed
      \<and> source_type obj \<noteq> PostLocation_value e Story \<longrightarrow>
      (\<exists>err. r = Inl err)
      \<and> calls_to ''media/configure/'' (drop (length (trace w)) (trace w')) = []
      \<and> calls_to ''media/configure_to_story/'' (drop (length (trace w)) (trace w')) = []
      \<and> (r = Inl UnsupportedPostLocation \<longrightarrow>
            (\<exists>up loc.
               trace w' = trace w @ up # loc
               \<and> (\<exists>content wid len nm ty.
                     up = upload_image_request e content wid len nm ty (session_id e)
                            (upload_id obj) quality)
               \<and> (loc = [] \<or> (\<exists>q. loc = [location_search q]))
               \<and> image_upload_calls (up # loc) = [up]))"
      by (intro impI, elim conjE) (rule other)
    show "source_type obj \<noteq> PostLocation_value e Feed
      \<and> source_type obj \<noteq> PostLocation_value e Story
      \<and> fill_device e obj = Inr obj1
      \<and> pop_image_fields (as_dict obj) = Inr (image_path, wid, len, nm, ty, d)
      \<and> files e image_path = Some content
      \<and> respond e (trace w)
            (upload_image_request e content wid len nm ty (session_id e) (upload_id obj) quality)
          = Inr uploaded
      \<and> attach_location e obj1 d
            (w\<lparr>trace := trace w @ [upload_image_request e content wid len nm ty (session_id e)
                                      (upload_id obj) quality]\<rparr>) = (Inr (obj2, d6), w2) \<longrightarrow>
      (r, obj', w') = (Inl UnsupportedPostLocation, obj2, w2)"
      unfolding run [symmetric] by (intro impI, elim conjE) (rule post_post_unsupported)
    show "source_type obj \<noteq> PostLocation_value e Feed
      \<and> source_type obj \<noteq> PostLocation_value e Story
      \<and> fill_device e obj = Inr obj1
      \<and> pop_image_fields (as_dict obj) = Inr (image_path, wid, len, nm, ty, d)
      \<and> files e image_path = Some content
      \<and> respond e (trace w)
            (upload_image_request e content wid len nm ty (session_id e) (upload_id obj) quality)
          = Inr uploaded
      \<and> location obj = None \<longrightarrow>
      (r, obj', w') =
        (Inl UnsupportedPostLocation, obj1,
         w\<lparr>trace := trace w @ [upload_image_request e content wid len nm ty (session_id e)
                                   (upload_id obj) quality]\<rparr>)"
      unfolding run [symmetric] by (intro impI, elim conjE) (rule post_post_no_location)
    show "source_type obj \<noteq> PostLocation_value e Feed
      \<and> source_type obj \<noteq> PostLocation_value e Story
      \<and> fill_device e obj = Inr obj1
      \<and> pop_image_fields (as_dict obj) = Inr (image_path, wid, len, nm, ty, d)
      \<and> files e image_path = Some content
      \<and> respond e (trace w)
            (upload_image_request e content wid len nm ty (session_id e) (upload_id obj) quality)
          = Inr uploaded
      \<and> location obj = Some loc \<and> facebook_places_id loc = Some pid \<and> pid \<noteq> [] \<longrightarrow>
      (r, obj', w') =
        (Inl UnsupportedPostLocation, obj1\<lparr>location := Some loc\<rparr>,
         w\<lparr>trace := trace w @ [upload_image_request e content wid len nm ty (session_id e)
                                   (upload_id obj) quality]\<rparr>)"
      unfolding run [symmetric] by (intro impI, elim conjE) (rule post_post_known_place)
  qed
qed


lemma example_post_run:
  "src = ''4'' \<or> src = ''3'' \<or> src = ''9'' \<Longrightarrow>
   post_post example_env (example_post\<lparr>source_type := src\<rparr>) None world0 =
     (if src = ''4''
      then Inr (Some example_answer)
      else if src = ''3'' then Inr (Some example_answer) else Inl UnsupportedPostLocation,
      example_post\<lparr>source_type := src,
                    device := Some \<lparr>manufacturer = ''samsung'', model = ''SM-G930F'',
                                   android_sdk_version = 26, android_release = ''8.0''\<rparr>\<rparr>,
      \<lparr>trace = upload_image_request example_env [6] ''wf-1'' ''1'' ''photo-1'' ''image/jpg''
                  ''session-1'' ''17'' None
                # (if src = ''4''
                   then [configure_request example_env ''media/configure/'' [(''caption'', ''hello'')]]
                   else if src = ''3''
                   then [configure_request example_env ''media/configure_to_story/''
                           [(''caption'', ''hello'')]]
                   else []),
       uuids_drawn = 0\<rparr>)"
proof -
  have sdk: "int_of_str ''26'' = Some 26"
    by (simp add: int_of_str_def digit_val_def upt_rec)
  have dev: "fill_device example_env (example_post\<lparr>source_type := src\<rparr>) =
      Inr (example_post\<lparr>source_type := src,
                    device := Some \<lparr>manufacturer = ''samsung'', model = ''SM-G930F'',
                                   android_sdk_version = 26, android_release = ''8.0''\<rparr>\<rparr>)"
    by (simp add: fill_device_def new_device_def and_then_def example_env_def example_post_def sdk)
  have pops: "pop_image_fields (as_dict example_post) =
      Inr (''photo.jpg'', ''wf-1'', ''1'', ''photo-1'', ''image/jpg'', [(''caption'', ''hello'')])"
    by (simp add: pop_image_fields_def and_then_def dict_pop_def dict_del_def example_post_def)
  have env: "files example_env ''photo.jpg'' = Some [6]" "session_id example_env = ''session-1''"
    "respond example_env tr r = Inr (Some example_answer)"
    "PostLocation_value example_env Feed = ''4''" "PostLocation_value example_env Story = ''3''"
    for tr r
    by (simp_all add: example_env_def example_files_def)
  have fields: "upload_id example_post = ''17''" "location example_post = None"
    by (simp_all add: example_post_def)
  assume "src = ''4'' \<or> src = ''3'' \<or> src = ''9''"
  then show ?thesis
    by (auto simp: post_post_def dev pops upload_image_def request_def env attach_location_def
          configure_post_def world0_def fields)
qed


theorem post_post_calls_witness:
  "fst (post_post example_env example_post None world0) = Inr (Some example_answer)
   \<and> image_upload_calls (trace (snd (snd (post_post example_env example_post None world0)))) =
       [upload_image_request example_env [6] ''wf-1'' ''1'' ''photo-1'' ''image/jpg''
          ''session-1'' ''17'' None]
   \<and> calls_to ''media/configure/''
         (trace (snd (snd (post_post example_env example_post None world0)))) =
       [configure_request example_env ''media/configure/'' [(''caption'', ''hello'')]]
   \<and> calls_to ''media/configure_to_story/''
         (trace (snd (snd (post_post example_env (example_post\<lparr>source_type := ''3''\<rparr>)
                             None world0)))) =
       [configure_request example_env ''media/configure_to_story/'' [(''caption'', ''hello'')]]
   \<and> fst (post_post example_env (example_post\<lparr>source_type := ''9''\<rparr>) None world0) =
       Inl UnsupportedPostLocation
   \<and> calls_to ''media/configure/''
         (trace (snd (snd (post_post example_env (example_post\<lparr>source_type := ''9''\<rparr>)
                             None world0)))) = []
   \<and> fst (post_post example_env
             (example_post\<lparr>location := Some known_place, source_type := ''9''\<rparr>) None world0) =
       Inl UnsupportedPostLocation
   \<and> trace (snd (snd (post_post example_env
             (example_post\<lparr>location := Some known_place, source_type := ''9''\<rparr>) None world0))) =
       [upload_image_request example_env [6] ''wf-1'' ''1'' ''photo-1'' ''image/jpg''
          ''session-1'' ''17'' None]
   \<and> fst (post_post example_env
             (example_post\<lparr>location := Some example_location, source_type := ''9''\<rparr>) None world0) =
       Inl UnsupportedPostLocation
   \<and> trace (snd (snd (post_post example_env
             (example_post\<lparr>location := Some example_location, source_type := ''9''\<rparr>) None world0))) =
       [upload_image_request example_env [6] ''wf-1'' ''1'' ''photo-1'' ''image/jpg''
          ''session-1'' ''17'' None,
        location_search [(''search_query'', PStr ''Paris''), (''rankToken'', PStr ''uuid-0'')]]"
proof -
  let ?up = "upload_image_request example_env [6] ''wf-1'' ''1'' ''photo-1'' ''image/jpg''
               ''session-1'' ''17'' None"
  have same: "example_post\<lparr>source_type := ''4''\<rparr> = example_post"
    by (simp add: example_post_def)
  have vals: "PostLocation_value example_env Feed = ''4''"
    "PostLocation_value example_env Story = ''3''" "trace world0 = []"
    "source_type example_post = ''4''"
    by (simp_all add: example_env_def world0_def example_post_def)
  from example_post_run [of "''4''"]
  have feed_run: "fst (post_post example_env example_post None world0) = Inr (Some example_answer)"
    "trace (snd (snd (post_post example_env example_post None world0))) =
       [?up, configure_request example_env ''media/configure/'' [(''caption'', ''hello'')]]"
    by (simp_all add: same)
  from example_post_run [of "''3''"]
  have story_run:
    "fst (post_post example_env (example_post\<lparr>source_type := ''3''\<rparr>) None world0) =
       Inr (Some example_answer)"
    "trace (snd (snd (post_post example_env (example_post\<lparr>source_type := ''3''\<rparr>) None world0))) =
       [?up, configure_request example_env ''media/configure_to_story/'' [(''caption'', ''hello'')]]"
    by simp_all
  from example_post_run [of "''9''"]
  have other_run:
    "fst (post_post example_env (example_post\<lparr>source_type := ''9''\<rparr>) None world0) =
       Inl UnsupportedPostLocation"
    "trace (snd (snd (post_post example_env (example_post\<lparr>source_type := ''9''\<rparr>) None world0))) =
       [?up]"
    by simp_all
  from post_post_calls [where obj = example_post and e = example_env and quality = None and w = world0] feed_run(1)
  have "\<exists>up loc d.
         trace (snd (snd (post_post example_env example_post None world0))) =
           trace world0 @ up # loc @ [configure_request example_env ''media/configure/'' d]
         \<and> (\<exists>content wid len nm ty.
               up = upload_image_request example_env content wid len nm ty
                      (session_id example_env) (upload_id example_post) None)
         \<and> (loc = [] \<or> (\<exists>q. loc = [location_search q]))
         \<and> image_upload_calls (up # loc @ [configure_request example_env ''media/configure/'' d])
             = [up]
         \<and> calls_to ''media/configure/''
               (up # loc @ [configure_request example_env ''media/configure/'' d])
             = [configure_request example_env ''media/configure/'' d]"
    by (simp add: vals)
  then obtain up loc d
    where tr: "trace (snd (snd (post_post example_env example_post None world0))) =
                 up # loc @ [configure_request example_env ''media/configure/'' d]"
      and c1: "image_upload_calls (up # loc @ [configure_request example_env ''media/configure/'' d])
                 = [up]"
      and c2: "calls_to ''media/configure/''
                 (up # loc @ [configure_request example_env ''media/configure/'' d])
               = [configure_request example_env ''media/configure/'' d]"
    unfolding vals by (elim exE conjE) simp
  from tr feed_run(2) have "up = ?up" by simp
  moreover from tr feed_run(2)
  have "last (up # loc @ [configure_request example_env ''media/configure/'' d]) =
        last [?up, configure_request example_env ''media/configure/'' [(''caption'', ''hello'')]]"
    by simp
  then have "configure_request example_env ''media/configure/'' d =
             configure_request example_env ''media/configure/'' [(''caption'', ''hello'')]"
    by simp
  ultimately
  have a: "image_upload_calls (trace (snd (snd (post_post example_env example_post None world0))))
             = [?up]"
    and b: "calls_to ''media/configure/''
              (trace (snd (snd (post_post example_env example_post None world0)))) =
            [configure_request example_env ''media/configure/'' [(''caption'', ''hello'')]]"
    using c1 c2 unfolding tr by simp_all
  from post_post_calls [where obj = "example_post\<lparr>source_type := ''9''\<rparr>" and e = example_env
                          and quality = None and w = world0]
  have d: "calls_to ''media/configure/''
         (trace (snd (snd (post_post example_env (example_post\<lparr>source_type := ''9''\<rparr>)
                             None world0)))) = []"
    by (simp add: vals)
  have c: "calls_to ''media/configure_to_story/''
         (trace (snd (snd (post_post example_env (example_post\<lparr>source_type := ''3''\<rparr>)
                             None world0)))) =
       [configure_request example_env ''media/configure_to_story/'' [(''caption'', ''hello'')]]"
    by (simp add: story_run calls_to_def upload_image_request_def configure_request_def)
  have env: "files example_env ''photo.jpg'' = Some [6]" "session_id example_env = ''session-1''"
    "respond example_env tr r = Inr (Some example_answer)" for tr r
    by (simp_all add: example_env_def example_files_def)
  have sdk: "int_of_str ''26'' = Some 26"
    by (simp add: int_of_str_def digit_val_def upt_rec)
  let ?dev = "Some \<lparr>manufacturer = ''samsung'', model = ''SM-G930F'',
                     android_sdk_version = 26, android_release = ''8.0''\<rparr>"
  have dev: "fill_device example_env (example_post\<lparr>location := l, source_type := ''9''\<rparr>) =
      Inr (example_post\<lparr>location := l, source_type := ''9'', device := ?dev\<rparr>)" for l
    by (simp add: fill_device_def new_device_def and_then_def example_env_def example_post_def sdk)
  have pops: "pop_image_fields (as_dict example_post) =
      Inr (''photo.jpg'', ''wf-1'', ''1'', ''photo-1'', ''image/jpg'', [(''caption'', ''hello'')])"
    by (simp add: pop_image_fields_def and_then_def dict_pop_def dict_del_def example_post_def)
  have uid: "upload_id example_post = ''17''"
    by (simp add: example_post_def)
  have src: "source_type (example_post\<lparr>location := l, source_type := ''9''\<rparr>)
               \<noteq> PostLocation_value example_env Feed"
    "source_type (example_post\<lparr>location := l, source_type := ''9''\<rparr>)
               \<noteq> PostLocation_value example_env Story" for l
    by (simp_all add: vals)
  have dumps: "json_dumps example_env v = ''{}''" for v
    by (simp add: example_env_def)
  have first_uuid: "uuid4 example_env 0 = ''uuid-0''"
    by (simp add: example_env_def str_nat.simps digit_char_def)
  have known: "facebook_places_id known_place = Some ''123''"
    by (simp add: known_place_def)
  from post_post_calls [where obj = "example_post\<lparr>location := Some known_place, source_type := ''9''\<rparr>"
         and e = example_env and quality = None and w = world0
         and ?obj1.0 = "example_post\<lparr>location := Some known_place, source_type := ''9'', device := ?dev\<rparr>"
         and image_path = "''photo.jpg''" and wid = "''wf-1''" and len = "''1''"
         and nm = "''photo-1''" and ty = "''image/jpg''" and d = "[(''caption'', ''hello'')]"
         and content = "[6]" and uploaded = "Some example_answer"
         and loc = known_place and pid = "''123''",
         THEN conjunct2, THEN conjunct2, THEN conjunct2, THEN conjunct2, THEN conjunct2]
  have placed: "post_post example_env
          (example_post\<lparr>location := Some known_place, source_type := ''9''\<rparr>) None world0 =
        (Inl UnsupportedPostLocation,
         example_post\<lparr>location := Some known_place, source_type := ''9'', device := ?dev,
                       location := Some known_place\<rparr>,
         world0\<lparr>trace := trace world0 @ [?up]\<rparr>)"
    by (simp add: vals dev pops env uid known)
  have looked: "attach_location example_env
           (example_post\<lparr>location := Some example_location, source_type := ''9'', device := ?dev\<rparr>)
           [(''caption'', ''hello'')] (world0\<lparr>trace := trace world0 @ [?up]\<rparr>) =
         (Inr (example_post\<lparr>location := Some example_location, source_type := ''9'',
                             device := ?dev,
                             location := Some (example_location\<lparr>facebook_places_id := Some ''123''\<rparr>)\<rparr>,
               [(''caption'', ''hello''), (''location'', ''{}'')]),
          \<lparr>trace = [?up, location_search [(''search_query'', PStr ''Paris''),
                                           (''rankToken'', PStr ''uuid-0'')]],
           uuids_drawn = 1\<rparr>)"
    by (simp add: attach_location_def request_fb_places_id_def gen_uuid_def request_def
          venue_external_id_def and_then_def resp_json_def example_answer_def env
          example_location_def world0_def first_uuid Let_def dumps)
  from post_post_calls [where obj = "example_post\<lparr>location := Some example_location, source_type := ''9''\<rparr>"
         and e = example_env and quality = None and w = world0
         and ?obj1.0 = "example_post\<lparr>location := Some example_location, source_type := ''9'', device := ?dev\<rparr>"
         and image_path = "''photo.jpg''" and wid = "''wf-1''" and len = "''1''"
         and nm = "''photo-1''" and ty = "''image/jpg''" and d = "[(''caption'', ''hello'')]"
         and content = "[6]" and uploaded = "Some example_answer"
         and ?obj2.0 = "example_post\<lparr>location := Some example_location, source_type := ''9'',
                             device := ?dev,
                             location := Some (example_location\<lparr>facebook_places_id := Some ''123''\<rparr>)\<rparr>"
         and ?d6.0 = "[(''caption'', ''hello''), (''location'', ''{}'')]"
         and ?w2.0 = "\<lparr>trace = [?up, location_search [(''search_query'', PStr ''Paris''),
                                           (''rankToken'', PStr ''uuid-0'')]],
                      uuids_drawn = 1\<rparr>",
         THEN conjunct2, THEN conjunct2, THEN conjunct2, THEN conjunct1] looked
  have found: "post_post example_env
          (example_post\<lparr>location := Some example_location, source_type := ''9''\<rparr>) None world0 =
        (Inl UnsupportedPostLocation,
         example_post\<lparr>location := Some example_location, source_type := ''9'',
                             device := ?dev,
                             location := Some (example_location\<lparr>facebook_places_id := Some ''123''\<rparr>)\<rparr>,
         \<lparr>trace = [?up, location_search [(''search_query'', PStr ''Paris''),
                                           (''rankToken'', PStr ''uuid-0'')]],
           uuids_drawn = 1\<rparr>)"
    by (simp add: vals dev pops env uid)
  from feed_run(1) a b c other_run(1) d show ?thesis
    by (simp add: placed found vals)
qed

section \<open>Chunks of a file\<close>

lemma bytes_from_file_empty: "bytes_from_file [] n = []"
  by (subst bytes_from_file.simps) simp

lemma bytes_from_file_step:
  "0 < n \<Longrightarrow> content \<noteq> [] \<Longrightarrow>
     bytes_from_file content n = take n content # bytes_from_file (drop n content) n"
  by (subst bytes_from_file.simps) (simp add: Let_def)

lemma concat_bytes_from_file: "0 < n \<Longrightarrow> concat (bytes_from_file content n) = content"
proof (induction content n rule: bytes_from_file.induct)
  case (1 content chunksize)
  show ?case
  proof (cases "content = []")
    case True
    then show ?thesis by (simp add: bytes_from_file_empty)
  next
    case False
    with "1.prems" have "take chunksize content \<noteq> []" by simp
    with "1.IH" "1.prems" have "concat (bytes_from_file (drop chunksize content) chunksize) =
        drop chunksize content"
      by simp
    with False "1.prems" show ?thesis by (simp add: bytes_from_file_step)
  qed
qed

lemma ceil_div_step:
  assumes "0 < n" and "0 < (m::nat)"
  shows "(m + n - 1) div n = Suc ((m - 1) div n)"
proof -
  from assms have "m + n - 1 = (m - 1) + n" by simp
  then have "(m + n - 1) div n = ((m - 1) + n) div n" by (rule arg_cong)
  also from assms(1) have "\<dots> = Suc ((m - 1) div n)"
    using div_add_self2 [of n "m - 1"] by simp
  finally show ?thesis .
qed

lemma length_bytes_from_file:
  "0 < n \<Longrightarrow> length (bytes_from_file content n) = (length content + n - 1) div n"
proof (induction content n rule: bytes_from_file.induct)
  case (1 content chunksize)
  show ?case
  proof (cases "content = []")
    case True
    with "1.prems" show ?thesis by (simp add: bytes_from_file_empty)
  next
    case False
    then have pos: "0 < length content" by simp
    from False "1.prems" have "take chunksize content \<noteq> []" by simp
    with "1.IH" "1.prems"
    have ih: "length (bytes_from_file (drop chunksize content) chunksize) =
        (length content - chunksize + chunksize - 1) div chunksize"
      by simp
    have "length (bytes_from_file (drop chunksize content) chunksize) =
        (length content - 1) div chunksize"
    proof (cases "chunksize \<le> length content")
      case True
      then have "length content - chunksize + chunksize - 1 = length content - 1" by simp
      with ih show ?thesis by simp
    next
      case short: False
      then have "drop chunksize content = []" by simp
      moreover from short have "(length content - 1) div chunksize = 0" by simp
      ultimately show ?thesis by (simp add: bytes_from_file_empty)
    qed
    with False "1.prems" ceil_div_step [OF "1.prems" pos] show ?thesis
      by (simp add: bytes_from_file_step [of chunksize content])
  qed
qed

lemma nth_bytes_from_file:
  "0 < n \<Longrightarrow> i < length (bytes_from_file content n) \<Longrightarrow>
     bytes_from_file content n ! i = take n (drop (n * i) content)"
proof (induction content n arbitrary: i rule: bytes_from_file.induct)
  case (1 content chunksize)
  show ?case
  proof (cases "content = []")
    case True
    with "1.prems" show ?thesis by (simp add: bytes_from_file_empty)
  next
    case False
    with "1.prems" have ne: "take chunksize content \<noteq> []" by simp
    show ?thesis
    proof (cases i)
      case 0
      with False "1.prems" show ?thesis by (simp add: bytes_from_file_step)
    next
      case (Suc j)
      with "1.prems" False have "j < length (bytes_from_file (drop chunksize content) chunksize)"
        by (simp add: bytes_from_file_step)
      with "1.IH" [OF refl ne] "1.prems"
      have "bytes_from_file (drop chunksize content) chunksize ! j =
          take chunksize (drop (chunksize * j) (drop chunksize content))"
        by simp
      with Suc False "1.prems" show ?thesis
        by (simp add: bytes_from_file_step add.commute)
    qed
  qed
qed

lemma length_chunk_before_last:
  assumes "0 < n" and "Suc i < length (bytes_from_file content n)"
  shows "length (bytes_from_file content n ! i) = n"
proof -
  from assms have "Suc (Suc i) \<le> (length content + n - 1) div n"
    by (simp add: length_bytes_from_file)
  then have "n * Suc (Suc i) \<le> n * ((length content + n - 1) div n)"
    by (rule mult_le_mono2)
  also have "\<dots> \<le> length content + n - 1"
    by (rule times_div_less_eq_dividend)
  finally have "n * i + n + n \<le> length content + n - 1" by simp
  with assms(1) have "n * i + n \<le> length content" by simp
  with assms show ?thesis by (simp add: nth_bytes_from_file)
qed

lemma offset_before_chunk:
  assumes "0 < n" and "i < length (bytes_from_file content n)"
  shows "sum_list (map length (take i (bytes_from_file content n))) = n * i"
  using assms(2)
proof (induction i)
  case 0
  then show ?case by simp
next
  case (Suc i)
  then have "take (Suc i) (bytes_from_file content n) =
      take i (bytes_from_file content n) @ [bytes_from_file content n ! i]"
    by (simp add: take_Suc_conv_app_nth)
  with Suc assms(1) show ?case
    by (simp add: length_chunk_before_last)
qed


section \<open>The chunked upload of a video\<close>

lemma map_of_dict_set: "map_of (dict_set k v d) k' = (if k' = k then Some v else map_of d k')"
  by (induction d) auto

lemma map_of_dict_merge_absent:
  "k \<notin> dict_keys b \<Longrightarrow> map_of (dict_merge a b) k = map_of a k"
proof (induction b arbitrary: a)
  case Nil
  then show ?case by (simp add: dict_merge_def)
next
  case (Cons kv b)
  from Cons.prems have "k \<noteq> fst kv" and "k \<notin> dict_keys b"
    by (auto simp: dict_keys_def)
  with Cons.IH [of "dict_set (fst kv) (snd kv) a"] show ?case
    by (simp add: dict_merge_def map_of_dict_set)
qed

lemma transfer_post_offset_header:
  "\<exists>hs. headers (transfer_post nm hdrs got offset chunk) = Some hs
     \<and> map_of hs ''segment-start-offset'' = Some (PStr (str_int (int offset)))"
  by (simp add: transfer_post_def dict_merge_def map_of_dict_set)

lemma transfer_post_stream_id:
  "''stream_id'' \<notin> dict_keys got \<Longrightarrow>
     \<exists>hs. headers (transfer_post nm [(''stream_id'', sid)] got offset chunk) = Some hs
       \<and> map_of hs ''stream_id'' = Some sid"
proof -
  assume "''stream_id'' \<notin> dict_keys got"
  then have "map_of (dict_merge [(''stream_id'', sid)] got) ''stream_id'' = Some sid"
    by (simp add: map_of_dict_merge_absent)
  then show ?thesis
    by (simp add: transfer_post_def dict_merge_def [of _ "[_, _, _, _]"] map_of_dict_set)
qed

lemma transfer_chunks_trace:
  assumes "transfer_chunks e hdrs chunks offset w = (Inr reached, w')"
  shows "reached = offset + sum_list (map length chunks)
       \<and> uuids_drawn w' = uuids_drawn w + length chunks
       \<and> (\<exists>gots. length gots = length chunks
             \<and> trace w' = trace w @ concat (map (transfer_pair e hdrs (uuids_drawn w) offset chunks gots)
                                               [0 ..< length chunks]))"
  using assms
proof (induction chunks arbitrary: offset w)
  case Nil
  then show ?case by simp
next
  case (Cons chunk chunks)
  let ?nm = "uuid4 e (uuids_drawn w)"
  let ?w1 = "w\<lparr>uuids_drawn := Suc (uuids_drawn w)\<rparr>"
  let ?w2 = "?w1\<lparr>trace := trace w @ [transfer_get ?nm hdrs]\<rparr>"
  from Cons.prems obtain got
    where got: "and_then (respond e (trace w) (transfer_get ?nm hdrs))
                  (\<lambda>resp. and_then (resp_json resp) py_mapping) = Inr got"
    by (auto simp: gen_uuid_def request_def Let_def split: sum.splits prod.splits)
  let ?post = "transfer_post ?nm hdrs got offset chunk"
  let ?w3 = "?w2\<lparr>trace := trace w @ [transfer_get ?nm hdrs, ?post]\<rparr>"
  from Cons.prems got
  have rest: "transfer_chunks e hdrs chunks (offset + length chunk) ?w3 = (Inr reached, w')"
    by (auto simp: gen_uuid_def request_def Let_def split: sum.splits prod.splits)
  from Cons.IH [OF rest] obtain gots
    where reached: "reached = offset + length chunk + sum_list (map length chunks)"
      and drawn: "uuids_drawn w' = Suc (uuids_drawn w) + length chunks"
      and len: "length gots = length chunks"
      and tr: "trace w' = trace w @ [transfer_get ?nm hdrs, ?post] @
                 concat (map (transfer_pair e hdrs (Suc (uuids_drawn w)) (offset + length chunk)
                                chunks gots) [0 ..< length chunks])"
    by auto
  have shift: "transfer_pair e hdrs (Suc (uuids_drawn w)) (offset + length chunk) chunks gots =
               (\<lambda>i. transfer_pair e hdrs (uuids_drawn w) offset (chunk # chunks) (got # gots)
                      (Suc i))"
    by (rule ext) (simp add: transfer_pair_def add.assoc)
  have first: "transfer_pair e hdrs (uuids_drawn w) offset (chunk # chunks) (got # gots) 0 =
               [transfer_get ?nm hdrs, ?post]"
    by (simp add: transfer_pair_def)
  have "trace w' = trace w @
          concat (map (transfer_pair e hdrs (uuids_drawn w) offset (chunk # chunks) (got # gots))
                    [0 ..< length (chunk # chunks)])"
    unfolding tr by (simp add: map_upt_Suc shift first del: upt_Suc)
  moreover have "length (got # gots) = length (chunk # chunks)" using len by simp
  ultimately have "\<exists>gs. length gs = length (chunk # chunks)
      \<and> trace w' = trace w @
            concat (map (transfer_pair e hdrs (uuids_drawn w) offset (chunk # chunks) gs)
                      [0 ..< length (chunk # chunks)])"
    by (intro exI [of _ "got # gots"] conjI)
  with reached drawn show ?case by simp
qed


lemma upload_video_in_chunks_trace:
  assumes "upload_video_in_chunks e obj w = (Inr hdrs, w')"
  shows "\<exists>j sid content gots.
           respond e (trace w) (start_request e obj (uuid4 e (uuids_drawn w))) = Inr (Some j)
         \<and> py_getitem j ''stream_id'' = Inr sid
         \<and> hdrs = [(''stream_id'', sid)]
         \<and> files e (path obj) = Some content
         \<and> length gots = length (bytes_from_file content 1024)
         \<and> uuids_drawn w' = Suc (uuids_drawn w) + length (bytes_from_file content 1024)
         \<and> trace w' = trace w @ start_request e obj (uuid4 e (uuids_drawn w))
               # concat (map (transfer_pair e hdrs (Suc (uuids_drawn w)) 0
                               (bytes_from_file content 1024) gots)
                           [0 ..< length (bytes_from_file content 1024)])"
proof -
  let ?start = "start_request e obj (uuid4 e (uuids_drawn w))"
  let ?w2 = "w\<lparr>uuids_drawn := Suc (uuids_drawn w), trace := trace w @ [?start]\<rparr>"
  from assms obtain sid
    where sid: "and_then (respond e (trace w) ?start)
                  (\<lambda>resp. and_then (resp_json resp) (\<lambda>j. py_getitem j ''stream_id'')) = Inr sid"
    by (auto simp: upload_video_in_chunks_def gen_uuid_def request_def Let_def
             split: sum.splits prod.splits)
  then obtain j where j: "respond e (trace w) ?start = Inr (Some j)"
      and item: "py_getitem j ''stream_id'' = Inr sid"
    by (auto simp: and_then_def resp_json_def split: sum.splits option.splits)
  from assms sid have hdrs: "hdrs = [(''stream_id'', sid)]"
    by (auto simp: upload_video_in_chunks_def gen_uuid_def request_def Let_def
             split: sum.splits prod.splits option.splits)
  from assms sid obtain content where content: "files e (path obj) = Some content"
    by (auto simp: upload_video_in_chunks_def gen_uuid_def request_def Let_def
             split: sum.splits prod.splits option.splits)
  from assms sid content hdrs obtain reached
    where loop: "transfer_chunks e hdrs (bytes_from_file content 1024) 0 ?w2 = (Inr reached, w')"
    by (auto simp: upload_video_in_chunks_def gen_uuid_def request_def Let_def
             split: sum.splits prod.splits)
  from transfer_chunks_trace [OF loop] obtain gots
    where "length gots = length (bytes_from_file content 1024)"
      and "uuids_drawn w' = Suc (uuids_drawn w) + length (bytes_from_file content 1024)"
      and "trace w' = trace w @ ?start
               # concat (map (transfer_pair e hdrs (Suc (uuids_drawn w)) 0
                               (bytes_from_file content 1024) gots)
                           [0 ..< length (bytes_from_file content 1024)])"
    by auto
  with j item hdrs content show ?thesis by blast
qed

lemma last_chunk_offset:
  assumes "bytes_from_file content 1024 \<noteq> []"
  shows "sum_list (map length (butlast (bytes_from_file content 1024))) =
           length content - length (last (bytes_from_file content 1024))"
proof -
  let ?chunks = "bytes_from_file content 1024"
  from assms have "?chunks = butlast ?chunks @ [last ?chunks]" by simp
  then have "concat ?chunks = concat (butlast ?chunks @ [last ?chunks])" by simp
  then have "concat ?chunks = concat (butlast ?chunks) @ last ?chunks" by simp
  then have "length (concat ?chunks) =
      length (concat (butlast ?chunks)) + length (last ?chunks)"
    by simp
  then have "length content = sum_list (map length (butlast ?chunks)) + length (last ?chunks)"
    by (simp only: concat_bytes_from_file [of 1024 content, simplified] length_concat)
  then show ?thesis by simp
qed

text \<open>
  C3. For every video file of \<open>S\<close> bytes that \<open>upload_video_in_chunks\<close> uploads with
  chunk size 1024: the chunks, in order, make up the file, and there are
  \<open>ceil(S/1024)\<close> of them; after the Start request the trace holds one GET and one POST
  for each chunk, in the order of the chunks; the POST of chunk \<open>i\<close> carries the bytes
  from \<open>1024 * i\<close> on and, as its \<open>segment-start-offset\<close> header, the number of bytes of
  the chunks before it, which is \<open>1024 * i\<close> and, for the last chunk, \<open>S\<close> less the
  length of that chunk; and the offset that the loop tracks grows by the length of each
  chunk.
\<close>

theorem upload_video_in_chunks_transfers:
  assumes "upload_video_in_chunks e obj w = (Inr hdrs, w')"
    and "files e (path obj) = Some content"
  shows "length (bytes_from_file content 1024) = (length content + 1023) div 1024
       \<and> concat (bytes_from_file content 1024) = content
       \<and> (\<exists>gots. length gots = length (bytes_from_file content 1024)
             \<and> trace w' = trace w @ start_request e obj (uuid4 e (uuids_drawn w))
                   # concat (map (transfer_pair e hdrs (Suc (uuids_drawn w)) 0
                                   (bytes_from_file content 1024) gots)
                               [0 ..< length (bytes_from_file content 1024)]))
       \<and> (\<forall>i < length (bytes_from_file content 1024).
             sum_list (map length (take i (bytes_from_file content 1024))) = 1024 * i
             \<and> bytes_from_file content 1024 ! i = take 1024 (drop (1024 * i) content))
       \<and> (\<forall>nm got offset chunk.
             \<exists>hs. headers (transfer_post nm hdrs got offset chunk) = Some hs
               \<and> map_of hs ''segment-start-offset'' = Some (PStr (str_int (int offset))))
       \<and> (bytes_from_file content 1024 \<noteq> [] \<longrightarrow>
             sum_list (map length (butlast (bytes_from_file content 1024))) =
               length content - length (last (bytes_from_file content 1024)))
       \<and> (\<forall>chunks offset w0 reached w1.
             transfer_chunks e hdrs chunks offset w0 = (Inr reached, w1) \<longrightarrow>
               reached = offset + sum_list (map length chunks))"
proof (intro conjI)
  show "length (bytes_from_file content 1024) = (length content + 1023) div 1024"
    by (simp add: length_bytes_from_file)
  show "concat (bytes_from_file content 1024) = content"
    by (simp add: concat_bytes_from_file)
  from upload_video_in_chunks_trace [OF assms(1)] assms(2)
  show "\<exists>gots. length gots = length (bytes_from_file content 1024)
             \<and> trace w' = trace w @ start_request e obj (uuid4 e (uuids_drawn w))
                   # concat (map (transfer_pair e hdrs (Suc (uuids_drawn w)) 0
                                   (bytes_from_file content 1024) gots)
                               [0 ..< length (bytes_from_file content 1024)])"
    by auto
  show "\<forall>i < length (bytes_from_file content 1024).
             sum_list (map length (take i (bytes_from_file content 1024))) = 1024 * i
             \<and> bytes_from_file content 1024 ! i = take 1024 (drop (1024 * i) content)"
    by (simp add: offset_before_chunk nth_bytes_from_file)
  show "\<forall>nm got offset chunk.
             \<exists>hs. headers (transfer_post nm hdrs got offset chunk) = Some hs
               \<and> map_of hs ''segment-start-offset'' = Some (PStr (str_int (int offset)))"
    by (intro allI transfer_post_offset_header)
  show "bytes_from_file content 1024 \<noteq> [] \<longrightarrow>
             sum_list (map length (butlast (bytes_from_file content 1024))) =
               length content - length (last (bytes_from_file content 1024))"
    by (intro impI last_chunk_offset)
  show "\<forall>chunks offset w0 reached w1.
             transfer_chunks e hdrs chunks offset w0 = (Inr reached, w1) \<longrightarrow>
               reached = offset + sum_list (map length chunks)"
    using transfer_chunks_trace by blast
qed


lemma example_chunks:
  "bytes_from_file (replicate 1025 b) 1024 = [replicate 1024 b, [b]]"
proof -
  have "bytes_from_file (replicate 1025 b) 1024 =
          take 1024 (replicate 1025 b) # bytes_from_file (drop 1024 (replicate 1025 b)) 1024"
    by (rule bytes_from_file_step) simp_all
  also have "take 1024 (replicate 1025 b) = replicate 1024 b" by simp
  also have "drop 1024 (replicate 1025 b) = [b]" by simp
  also have "bytes_from_file [b] 1024 = take 1024 [b] # bytes_from_file (drop 1024 [b]) 1024"
    by (rule bytes_from_file_step) simp_all
  finally show ?thesis by (simp add: bytes_from_file_empty)
qed

lemma example_uuids:
  "uuid4 example_env 0 = ''uuid-0''" "uuid4 example_env (Suc 0) = ''uuid-1''"
  "uuid4 example_env (Suc (Suc 0)) = ''uuid-2''"
  "uuid4 example_env (Suc (Suc (Suc 0))) = ''uuid-3''"
  "uuid4 example_env (Suc (Suc (Suc (Suc 0)))) = ''uuid-4''"
  by (simp_all add: example_env_def str_nat.simps digit_char_def)

lemma example_video_upload:
  "upload_video_in_chunks example_env example_video world0 =
     (Inr [(''stream_id'', PStr ''stream-1'')],
      \<lparr>trace = [start_request example_env example_video ''uuid-0'',
                 transfer_get ''uuid-1'' [(''stream_id'', PStr ''stream-1'')],
                 transfer_post ''uuid-1'' [(''stream_id'', PStr ''stream-1'')]
                   [(''status'', PStr ''ok''),
                    (''venues'', PList [PDict [(''external_id'', PStr ''123'')]]),
                    (''stream_id'', PStr ''stream-1'')] 0 (replicate 1024 7),
                 transfer_get ''uuid-2'' [(''stream_id'', PStr ''stream-1'')],
                 transfer_post ''uuid-2'' [(''stream_id'', PStr ''stream-1'')]
                   [(''status'', PStr ''ok''),
                    (''venues'', PList [PDict [(''external_id'', PStr ''123'')]]),
                    (''stream_id'', PStr ''stream-1'')] 1024 [7]],
       uuids_drawn = 3\<rparr>)"
proof -
  have env: "respond example_env tr r = Inr (Some example_answer)"
    "files example_env ''video.mp4'' = Some (replicate 1025 7)" for tr r
    by (simp_all add: example_env_def example_files_def)
  have obj: "path example_video = ''video.mp4''"
    by (simp add: example_video_def)
  show ?thesis
    by (simp add: upload_video_in_chunks_def gen_uuid_def request_def env obj and_then_def
          resp_json_def example_answer_def example_chunks world0_def example_uuids Let_def)
qed

theorem upload_video_in_chunks_transfers_witness:
  "upload_video_in_chunks example_env example_video world0 =
     (Inr [(''stream_id'', PStr ''stream-1'')],
      \<lparr>trace = [start_request example_env example_video ''uuid-0'',
                 transfer_get ''uuid-1'' [(''stream_id'', PStr ''stream-1'')],
                 transfer_post ''uuid-1'' [(''stream_id'', PStr ''stream-1'')]
                   [(''status'', PStr ''ok''),
                    (''venues'', PList [PDict [(''external_id'', PStr ''123'')]]),
                    (''stream_id'', PStr ''stream-1'')] 0 (replicate 1024 7),
                 transfer_get ''uuid-2'' [(''stream_id'', PStr ''stream-1'')],
                 transfer_post ''uuid-2'' [(''stream_id'', PStr ''stream-1'')]
                   [(''status'', PStr ''ok''),
                    (''venues'', PList [PDict [(''external_id'', PStr ''123'')]]),
                    (''stream_id'', PStr ''stream-1'')] 1024 [7]],
       uuids_drawn = 3\<rparr>)
   \<and> files example_env (path example_video) = Some (replicate 1025 7)
   \<and> length (bytes_from_file (replicate 1025 7) 1024) = 2
   \<and> concat (bytes_from_file (replicate 1025 7) 1024) = replicate 1025 7
   \<and> sum_list (map length (butlast (bytes_from_file (replicate 1025 7) 1024))) = 1024"
proof -
  have f: "files example_env (path example_video) = Some (replicate 1025 7)"
    by (simp add: example_env_def example_files_def example_video_def)
  have ne: "bytes_from_file (replicate 1025 (7::byte)) 1024 \<noteq> []"
    by (simp add: example_chunks)
  have l: "length (last (bytes_from_file (replicate 1025 (7::byte)) 1024)) = 1"
    by (simp add: example_chunks)
  note inst = upload_video_in_chunks_transfers [OF example_video_upload f]
  from inst have "length (bytes_from_file (replicate 1025 (7::byte)) 1024) = 2"
    by simp
  moreover from inst have "concat (bytes_from_file (replicate 1025 (7::byte)) 1024) =
      replicate 1025 7"
    by simp
  moreover from inst ne
  have "sum_list (map length (butlast (bytes_from_file (replicate 1025 (7::byte)) 1024))) =
      length (replicate 1025 (7::byte)) - length (last (bytes_from_file (replicate 1025 (7::byte)) 1024))"
    by blast
  then have "sum_list (map length (butlast (bytes_from_file (replicate 1025 (7::byte)) 1024))) = 1024"
    by (simp only: l length_replicate)
  ultimately show ?thesis using example_video_upload f by simp
qed

section \<open>Publishing a video\<close>

lemma upload_video_thumbnail_done:
  assumes "upload_video_thumbnail e obj hdrs w = (Inr u, w')"
  shows "\<exists>thumb. files e (path_text (thumbnail_path obj)) = Some thumb
           \<and> uuids_drawn w' = Suc (Suc (uuids_drawn w))
           \<and> trace w' = trace w @
                 [end_request (uuid4 e (uuids_drawn w)) hdrs,
                  upload_image_request e thumb (uuid4 e (Suc (uuids_drawn w)))
                    (str_int (int (length thumb))) (uuid4 e (uuids_drawn w))
                    (''image/'' @ get_image_type (thumbnail_path obj))
                    (session_id e) (time_now e) (Some 0)]"
  using assms
  by (auto simp: upload_video_thumbnail_eq Let_def split: option.splits if_splits sum.splits)

lemma finish_video_upload_done:
  assumes "finish_video_upload e obj w = (Inr u, w')"
  shows "trace w' = trace w @ [upload_finish_request
                                 (filter (\<lambda>kv. fst kv \<notin> set finish_removed) (as_dict obj))]"
  using assms by (auto simp: finish_video_upload_eq Let_def split: if_splits)

lemma configure_video_done:
  assumes "configure_video e obj w = (Inr u, w')"
  shows "trace w' = trace w @ [upload_finish_request
                                 (filter (\<lambda>kv. fst kv \<notin> set configure_removed) (as_dict obj))]"
  using assms by (auto simp: configure_video_eq Let_def split: if_splits)

lemma post_video_stages:
  assumes "post_video e obj w = (Inr u, w')"
  shows "\<exists>hdrs w1 w2 w3.
           upload_video_in_chunks e obj w = (Inr hdrs, w1)
         \<and> upload_video_thumbnail e obj hdrs w1 = (Inr (), w2)
         \<and> finish_video_upload e obj w2 = (Inr (), w3)
         \<and> configure_video e obj w3 = (Inr (), w')"
  using assms
  by (auto simp: post_video_def split: prod.splits sum.splits)

lemma post_video_completed:
  assumes "post_video e obj w = (Inr u, w')"
  shows "\<exists>j sid content thumb gots.
           respond e (trace w) (start_request e obj (uuid4 e (uuids_drawn w))) = Inr (Some j)
         \<and> py_getitem j ''stream_id'' = Inr sid
         \<and> files e (path obj) = Some content
         \<and> files e (path_text (thumbnail_path obj)) = Some thumb
         \<and> length gots = length (bytes_from_file content 1024)
         \<and> trace w' =
             trace w
             @ start_request e obj (uuid4 e (uuids_drawn w))
             # concat (map (transfer_pair e [(''stream_id'', sid)] (Suc (uuids_drawn w)) 0
                             (bytes_from_file content 1024) gots)
                         [0 ..< length (bytes_from_file content 1024)])
             @ [end_request
                  (uuid4 e (Suc (uuids_drawn w) + length (bytes_from_file content 1024)))
                  [(''stream_id'', sid)],
                upload_image_request e thumb
                  (uuid4 e (Suc (Suc (uuids_drawn w)) + length (bytes_from_file content 1024)))
                  (str_int (int (length thumb)))
                  (uuid4 e (Suc (uuids_drawn w) + length (bytes_from_file content 1024)))
                  (''image/'' @ get_image_type (thumbnail_path obj))
                  (session_id e) (time_now e) (Some 0),
                upload_finish_request
                  (filter (\<lambda>kv. fst kv \<notin> set finish_removed) (as_dict obj)),
                upload_finish_request
                  (filter (\<lambda>kv. fst kv \<notin> set configure_removed) (as_dict obj))]
         \<and> (\<forall>nm. headers (transfer_get nm [(''stream_id'', sid)]) = Some [(''stream_id'', sid)]
                  \<and> headers (end_request nm [(''stream_id'', sid)]) = Some [(''stream_id'', sid)])
         \<and> (\<forall>nm got offset chunk.
               ''stream_id'' \<notin> dict_keys got \<longrightarrow>
               (\<exists>hs. headers (transfer_post nm [(''stream_id'', sid)] got offset chunk) = Some hs
                     \<and> map_of hs ''stream_id'' = Some sid))"
proof -
  from post_video_stages [OF assms] obtain hdrs w1 w2 w3
    where chunks: "upload_video_in_chunks e obj w = (Inr hdrs, w1)"
      and thumbnail: "upload_video_thumbnail e obj hdrs w1 = (Inr (), w2)"
      and finish: "finish_video_upload e obj w2 = (Inr (), w3)"
      and configure: "configure_video e obj w3 = (Inr (), w')"
    by blast
  from upload_video_in_chunks_trace [OF chunks] obtain j sid content gots
    where j: "respond e (trace w) (start_request e obj (uuid4 e (uuids_drawn w))) = Inr (Some j)"
      and sid: "py_getitem j ''stream_id'' = Inr sid"
      and hdrs: "hdrs = [(''stream_id'', sid)]"
      and content: "files e (path obj) = Some content"
      and gots: "length gots = length (bytes_from_file content 1024)"
      and drawn: "uuids_drawn w1 = Suc (uuids_drawn w) + length (bytes_from_file content 1024)"
      and tr1: "trace w1 = trace w @ start_request e obj (uuid4 e (uuids_drawn w))
               # concat (map (transfer_pair e hdrs (Suc (uuids_drawn w)) 0
                               (bytes_from_file content 1024) gots)
                           [0 ..< length (bytes_from_file content 1024)])"
    by blast
  from upload_video_thumbnail_done [OF thumbnail] obtain thumb
    where thumb: "files e (path_text (thumbnail_path obj)) = Some thumb"
      and tr2: "trace w2 = trace w1 @
                 [end_request (uuid4 e (uuids_drawn w1)) hdrs,
                  upload_image_request e thumb (uuid4 e (Suc (uuids_drawn w1)))
                    (str_int (int (length thumb))) (uuid4 e (uuids_drawn w1))
                    (''image/'' @ get_image_type (thumbnail_path obj))
                    (session_id e) (time_now e) (Some 0)]"
    by blast
  note tr3 = finish_video_upload_done [OF finish]
  note tr4 = configure_video_done [OF configure]
  have order: "trace w' =
             trace w
             @ start_request e obj (uuid4 e (uuids_drawn w))
             # concat (map (transfer_pair e [(''stream_id'', sid)] (Suc (uuids_drawn w)) 0
                             (bytes_from_file content 1024) gots)
                         [0 ..< length (bytes_from_file content 1024)])
             @ [end_request
                  (uuid4 e (Suc (uuids_drawn w) + length (bytes_from_file content 1024)))
                  [(''stream_id'', sid)],
                upload_image_request e thumb
                  (uuid4 e (Suc (Suc (uuids_drawn w)) + length (bytes_from_file content 1024)))
                  (str_int (int (length thumb)))
                  (uuid4 e (Suc (uuids_drawn w) + length (bytes_from_file content 1024)))
                  (''image/'' @ get_image_type (thumbnail_path obj))
                  (session_id e) (time_now e) (Some 0),
                upload_finish_request
                  (filter (\<lambda>kv. fst kv \<notin> set finish_removed) (as_dict obj)),
                upload_finish_request
                  (filter (\<lambda>kv. fst kv \<notin> set configure_removed) (as_dict obj))]"
    unfolding tr4 tr3 tr2 tr1 drawn hdrs by simp
  have plain: "\<forall>nm. headers (transfer_get nm [(''stream_id'', sid)]) = Some [(''stream_id'', sid)]
                  \<and> headers (end_request nm [(''stream_id'', sid)]) = Some [(''stream_id'', sid)]"
    by (simp add: transfer_get_def end_request_def)
  have merged: "\<forall>nm got offset chunk.
               ''stream_id'' \<notin> dict_keys got \<longrightarrow>
               (\<exists>hs. headers (transfer_post nm [(''stream_id'', sid)] got offset chunk) = Some hs
                     \<and> map_of hs ''stream_id'' = Some sid)"
    by (intro allI impI transfer_post_stream_id)
  from j sid content thumb gots order plain merged show ?thesis
    by (intro exI conjI)
qed


text \<open>The phases of a run, whatever its outcome.\<close>

lemma video_phase_simps:
  "video_phase (start_request e obj u) = 0"
  "video_phase (transfer_get nm hdrs) = 1"
  "video_phase (transfer_post nm hdrs got offset chunk) = 1"
  "video_phase (end_request nm hdrs) = 2"
  "video_phase (upload_image_request e content wid len nm ty sid uid q) = 3"
  "video_phase (upload_finish_request d) = 4"
  by (simp_all add: video_phase_def start_request_def transfer_get_def transfer_post_def
        end_request_def upload_image_request_def upload_finish_request_def Let_def)


lemma transfer_chunks_phase:
  "\<exists>new. trace (snd (transfer_chunks e hdrs chunks offset w)) = trace w @ new
     \<and> (\<forall>r \<in> set new. video_phase r = 1)"
proof (induction chunks arbitrary: offset w)
  case Nil
  then show ?case by simp
next
  case (Cons chunk chunks)
  let ?nm = "uuid4 e (uuids_drawn w)"
  let ?get = "transfer_get ?nm hdrs"
  let ?w2 = "w\<lparr>uuids_drawn := Suc (uuids_drawn w), trace := trace w @ [?get]\<rparr>"
  show ?case
  proof (cases "and_then (respond e (trace w) ?get)
                  (\<lambda>resp. and_then (resp_json resp) py_mapping)")
    case (Inl err)
    then have "trace (snd (transfer_chunks e hdrs (chunk # chunks) offset w)) = trace w @ [?get]"
      by (simp add: gen_uuid_def request_def)
    then show ?thesis by (simp add: video_phase_simps)
  next
    case (Inr got)
    let ?post = "transfer_post ?nm hdrs got offset chunk"
    let ?w3 = "?w2\<lparr>trace := trace w @ [?get, ?post]\<rparr>"
    show ?thesis
    proof (cases "respond e (trace w @ [?get]) ?post")
      case (Inl err)
      with Inr
      have "trace (snd (transfer_chunks e hdrs (chunk # chunks) offset w)) =
              trace w @ [?get, ?post]"
        by (simp add: gen_uuid_def request_def)
      then show ?thesis by (simp add: video_phase_simps)
    next
      case answered: (Inr x)
      with Inr
      have step: "transfer_chunks e hdrs (chunk # chunks) offset w =
              transfer_chunks e hdrs chunks (offset + length chunk) ?w3"
        by (simp add: gen_uuid_def request_def)
      from Cons.IH [of "offset + length chunk" ?w3] obtain new
        where "trace (snd (transfer_chunks e hdrs chunks (offset + length chunk) ?w3)) =
                 trace w @ [?get, ?post] @ new"
          and "\<forall>r \<in> set new. video_phase r = 1"
        by auto
      then have "trace (snd (transfer_chunks e hdrs (chunk # chunks) offset w)) =
                   trace w @ ([?get, ?post] @ new)
                 \<and> (\<forall>r \<in> set ([?get, ?post] @ new). video_phase r = 1)"
        unfolding step by (simp add: video_phase_simps)
      then show ?thesis by (intro exI)
    qed
  qed
qed

lemma upload_video_in_chunks_phase:
  "\<exists>new. trace (snd (upload_video_in_chunks e obj w)) =
           trace w @ start_request e obj (uuid4 e (uuids_drawn w)) # new
     \<and> (\<forall>r \<in> set new. video_phase r = 1)"
proof -
  let ?start = "start_request e obj (uuid4 e (uuids_drawn w))"
  let ?w2 = "w\<lparr>uuids_drawn := Suc (uuids_drawn w), trace := trace w @ [?start]\<rparr>"
  have stop: ?thesis
    if "trace (snd (upload_video_in_chunks e obj w)) = trace w @ [?start]"
    using that by simp
  show ?thesis
  proof (cases "and_then (respond e (trace w) ?start)
                  (\<lambda>resp. and_then (resp_json resp) (\<lambda>j. py_getitem j ''stream_id''))")
    case (Inl err)
    then show ?thesis
      by (intro stop) (simp add: upload_video_in_chunks_def gen_uuid_def request_def)
  next
    case (Inr sid)
    show ?thesis
    proof (cases "files e (path obj)")
      case None
      with Inr show ?thesis
        by (intro stop) (simp add: upload_video_in_chunks_def gen_uuid_def request_def)
    next
      case (Some content)
      from transfer_chunks_phase
             [of e "[(''stream_id'', sid)]" "bytes_from_file content 1024" 0 ?w2]
      obtain new
        where tr: "trace (snd (transfer_chunks e [(''stream_id'', sid)]
                                 (bytes_from_file content 1024) 0 ?w2)) =
                     trace w @ ?start # new"
          and ph: "\<forall>r \<in> set new. video_phase r = 1"
        by auto
      from Inr Some
      have "trace (snd (upload_video_in_chunks e obj w)) =
              trace (snd (transfer_chunks e [(''stream_id'', sid)]
                            (bytes_from_file content 1024) 0 ?w2))"
        by (simp add: upload_video_in_chunks_def gen_uuid_def request_def Let_def
                 split: prod.splits sum.splits)
      with tr ph have "trace (snd (upload_video_in_chunks e obj w)) = trace w @ ?start # new
          \<and> (\<forall>r \<in> set new. video_phase r = 1)"
        by simp
      then show ?thesis by (intro exI)
    qed
  qed
qed

lemma upload_video_thumbnail_phase:
  "\<exists>new. trace (snd (upload_video_thumbnail e obj hdrs w)) = trace w @ new
     \<and> sorted (map video_phase new)
     \<and> (\<forall>r \<in> set new. 2 \<le> video_phase r \<and> video_phase r \<le> 3)"
  by (auto simp: upload_video_thumbnail_eq Let_def video_phase_simps
           split: option.splits sum.splits)

lemma finish_video_upload_phase:
  "\<exists>new. trace (snd (finish_video_upload e obj w)) = trace w @ new
     \<and> (\<forall>r \<in> set new. video_phase r = 4)"
  by (auto simp: finish_video_upload_eq Let_def video_phase_simps)

lemma configure_video_phase:
  "\<exists>new. trace (snd (configure_video e obj w)) = trace w @ new
     \<and> (\<forall>r \<in> set new. video_phase r = 4)"
  by (auto simp: configure_video_eq Let_def video_phase_simps)


lemma sorted_same_phase: "\<forall>r \<in> set rs. video_phase r = c \<Longrightarrow> sorted (map video_phase rs)"
  by (induction rs) auto

lemma phases_sorted:
  assumes "video_phase s = 0"
    and "\<forall>r \<in> set ts. video_phase r = 1"
    and "sorted (map video_phase ns)" and "\<forall>r \<in> set ns. 2 \<le> video_phase r \<and> video_phase r \<le> 3"
    and "\<forall>r \<in> set fs. video_phase r = 4"
  shows "sorted (map video_phase (s # ts @ ns @ fs))"
  using assms sorted_same_phase [of ts 1] sorted_same_phase [of fs 4]
  by (fastforce simp: sorted_append)

lemma post_video_phases:
  "\<exists>new. trace (snd (post_video e obj w)) = trace w @ new \<and> sorted (map video_phase new)"
proof -
  let ?start = "start_request e obj (uuid4 e (uuids_drawn w))"
  have s: "video_phase ?start = 0" by (simp add: video_phase_simps)
  obtain r1 w1 where one: "upload_video_in_chunks e obj w = (r1, w1)"
    by (cases "upload_video_in_chunks e obj w")
  with upload_video_in_chunks_phase [of e obj w] obtain ts
    where tr1: "trace w1 = trace w @ ?start # ts" and ts: "\<forall>r \<in> set ts. video_phase r = 1"
    by auto
  have closes: ?thesis
    if "trace (snd (post_video e obj w)) = trace w @ ?start # ts @ ns @ fs"
      and "sorted (map video_phase ns)" and "\<forall>r \<in> set ns. 2 \<le> video_phase r \<and> video_phase r \<le> 3"
      and "\<forall>r \<in> set fs. video_phase r = 4"
    for ns fs
  proof -
    from phases_sorted [OF s ts that(2,3,4)] that(1)
    have "trace (snd (post_video e obj w)) = trace w @ (?start # ts @ ns @ fs)
          \<and> sorted (map video_phase (?start # ts @ ns @ fs))"
      by simp
    then show ?thesis by (intro exI)
  qed
  show ?thesis
  proof (cases r1)
    case (Inl err)
    with one tr1 have "trace (snd (post_video e obj w)) = trace w @ ?start # ts @ [] @ []"
      by (simp add: post_video_def)
    then show ?thesis by (rule closes) simp_all
  next
    case (Inr hdrs)
    obtain r2 w2 where two: "upload_video_thumbnail e obj hdrs w1 = (r2, w2)"
      by (cases "upload_video_thumbnail e obj hdrs w1")
    with upload_video_thumbnail_phase [of e obj hdrs w1] obtain ns
      where tr2: "trace w2 = trace w1 @ ns" and ns: "sorted (map video_phase ns)"
        "\<forall>r \<in> set ns. 2 \<le> video_phase r \<and> video_phase r \<le> 3"
      by auto
    show ?thesis
    proof (cases r2)
      case (Inl err)
      with one Inr two tr1 tr2
      have "trace (snd (post_video e obj w)) = trace w @ ?start # ts @ ns @ []"
        by (simp add: post_video_def)
      then show ?thesis using ns by (rule closes) simp
    next
      case thumb: (Inr u)
      obtain r3 w3 where three: "finish_video_upload e obj w2 = (r3, w3)"
        by (cases "finish_video_upload e obj w2")
      with finish_video_upload_phase [of e obj w2] obtain f1
        where tr3: "trace w3 = trace w2 @ f1" and f1: "\<forall>r \<in> set f1. video_phase r = 4"
        by auto
      show ?thesis
      proof (cases r3)
        case (Inl err)
        with one Inr two thumb three tr1 tr2 tr3
        have "trace (snd (post_video e obj w)) = trace w @ ?start # ts @ ns @ f1"
          by (simp add: post_video_def)
        then show ?thesis using ns f1 by (rule closes)
      next
        case fin: (Inr v)
        from configure_video_phase [of e obj w3] obtain f2
          where tr4: "trace (snd (configure_video e obj w3)) = trace w3 @ f2"
            and f2: "\<forall>r \<in> set f2. video_phase r = 4"
          by auto
        from one Inr two thumb three fin tr1 tr2 tr3 tr4
        have "trace (snd (post_video e obj w)) = trace w @ ?start # ts @ ns @ (f1 @ f2)"
          by (simp add: post_video_def)
        moreover from f1 f2 have "\<forall>r \<in> set (f1 @ f2). video_phase r = 4" by auto
        ultimately show ?thesis using ns by (intro closes [of ns "f1 @ f2"])
      qed
    qed
  qed
qed

text \<open>
  C4, amended. In every run of \<open>post_video\<close> the requests come in the order of their
  phases, and a completed publish has issued exactly: the Start request, one GET and one
  POST for each chunk, the End request, the image upload of the thumbnail, the finish
  request and the configure request, each only after the answers to all earlier ones. The \<open>stream_id\<close> of the
  Start response is the \<open>stream_id\<close> header of every transfer GET and of the End request,
  and of every transfer POST whose GET was answered without a \<open>stream_id\<close> key (the
  answer is merged over the session headers).
\<close>

theorem post_video_order:
  "(\<exists>new. trace (snd (post_video e obj w)) = trace w @ new \<and> sorted (map video_phase new))
   \<and> (fst (post_video e obj w) = Inr () \<longrightarrow>
       (\<exists>j sid content thumb gots.
           respond e (trace w) (start_request e obj (uuid4 e (uuids_drawn w))) = Inr (Some j)
         \<and> py_getitem j ''stream_id'' = Inr sid
         \<and> files e (path obj) = Some content
         \<and> files e (path_text (thumbnail_path obj)) = Some thumb
         \<and> length gots = length (bytes_from_file content 1024)
         \<and> trace (snd (post_video e obj w)) =
             trace w
             @ start_request e obj (uuid4 e (uuids_drawn w))
             # concat (map (transfer_pair e [(''stream_id'', sid)] (Suc (uuids_drawn w)) 0
                             (bytes_from_file content 1024) gots)
                         [0 ..< length (bytes_from_file content 1024)])
             @ [end_request
                  (uuid4 e (Suc (uuids_drawn w) + length (bytes_from_file content 1024)))
                  [(''stream_id'', sid)],
                upload_image_request e thumb
                  (uuid4 e (Suc (Suc (uuids_drawn w)) + length (bytes_from_file content 1024)))
                  (str_int (int (length thumb)))
                  (uuid4 e (Suc (uuids_drawn w) + length (bytes_from_file content 1024)))
                  (''image/'' @ get_image_type (thumbnail_path obj))
                  (session_id e) (time_now e) (Some 0),
                upload_finish_request
                  (filter (\<lambda>kv. fst kv \<notin> set finish_removed) (as_dict obj)),
                upload_finish_request
                  (filter (\<lambda>kv. fst kv \<notin> set configure_removed) (as_dict obj))]
         \<and> (\<forall>nm. headers (transfer_get nm [(''stream_id'', sid)]) = Some [(''stream_id'', sid)]
                  \<and> headers (end_request nm [(''stream_id'', sid)]) = Some [(''stream_id'', sid)])
         \<and> (\<forall>nm got offset chunk.
               ''stream_id'' \<notin> dict_keys got \<longrightarrow>
               (\<exists>hs. headers (transfer_post nm [(''stream_id'', sid)] got offset chunk) = Some hs
                     \<and> map_of hs ''stream_id'' = Some sid))))"
proof (intro conjI impI)
  show "\<exists>new. trace (snd (post_video e obj w)) = trace w @ new \<and> sorted (map video_phase new)"
    by (rule post_video_phases)
next
  assume "fst (post_video e obj w) = Inr ()"
  then have "post_video e obj w = (Inr (), snd (post_video e obj w))"
    by (cases "post_video e obj w") simp
  then show "\<exists>j sid content thumb gots.
           respond e (trace w) (start_request e obj (uuid4 e (uuids_drawn w))) = Inr (Some j)
         \<and> py_getitem j ''stream_id'' = Inr sid
         \<and> files e (path obj) = Some content
         \<and> files e (path_text (thumbnail_path obj)) = Some thumb
         \<and> length gots = length (bytes_from_file content 1024)
         \<and> trace (snd (post_video e obj w)) =
             trace w
             @ start_request e obj (uuid4 e (uuids_drawn w))
             # concat (map (transfer_pair e [(''stream_id'', sid)] (Suc (uuids_drawn w)) 0
                             (bytes_from_file content 1024) gots)
                         [0 ..< length (bytes_from_file content 1024)])
             @ [end_request
                  (uuid4 e (Suc (uuids_drawn w) + length (bytes_from_file content 1024)))
                  [(''stream_id'', sid)],
                upload_image_request e thumb
                  (uuid4 e (Suc (Suc (uuids_drawn w)) + length (bytes_from_file content 1024)))
                  (str_int (int (length thumb)))
                  (uuid4 e (Suc (uuids_drawn w) + length (bytes_from_file content 1024)))
                  (''image/'' @ get_image_type (thumbnail_path obj))
                  (session_id e) (time_now e) (Some 0),
                upload_finish_request
                  (filter (\<lambda>kv. fst kv \<notin> set finish_removed) (as_dict obj)),
                upload_finish_request
                  (filter (\<lambda>kv. fst kv \<notin> set configure_removed) (as_dict obj))]
         \<and> (\<forall>nm. headers (transfer_get nm [(''stream_id'', sid)]) = Some [(''stream_id'', sid)]
                  \<and> headers (end_request nm [(''stream_id'', sid)]) = Some [(''stream_id'', sid)])
         \<and> (\<forall>nm got offset chunk.
               ''stream_id'' \<notin> dict_keys got \<longrightarrow>
               (\<exists>hs. headers (transfer_post nm [(''stream_id'', sid)] got offset chunk) = Some hs
                     \<and> map_of hs ''stream_id'' = Some sid))"
    by (rule post_video_completed)
qed

lemma example_uuids_later:
  "uuid4 example_env 3 = ''uuid-3''" "uuid4 example_env 4 = ''uuid-4''"
  by (simp_all add: example_env_def str_nat.simps digit_char_def)

lemma example_video_published:
  "post_video example_env example_video world0 =
     (Inr (),
      \<lparr>trace = [start_request example_env example_video ''uuid-0'',
                 transfer_get ''uuid-1'' [(''stream_id'', PStr ''stream-1'')],
                 transfer_post ''uuid-1'' [(''stream_id'', PStr ''stream-1'')]
                   [(''status'', PStr ''ok''),
                    (''venues'', PList [PDict [(''external_id'', PStr ''123'')]]),
                    (''stream_id'', PStr ''stream-1'')] 0 (replicate 1024 7),
                 transfer_get ''uuid-2'' [(''stream_id'', PStr ''stream-1'')],
                 transfer_post ''uuid-2'' [(''stream_id'', PStr ''stream-1'')]
                   [(''status'', PStr ''ok''),
                    (''venues'', PList [PDict [(''external_id'', PStr ''123'')]]),
                    (''stream_id'', PStr ''stream-1'')] 1024 [7],
                 end_request ''uuid-3'' [(''stream_id'', PStr ''stream-1'')],
                 upload_image_request example_env [1, 2, 3] ''uuid-4'' ''3'' ''uuid-3''
                   ''image/jpg'' ''session-1'' ''1600000000.0'' (Some 0),
                 upload_finish_request [(''caption'', ''hello''), (''audio_muted'', ''0'')],
                 upload_finish_request [(''caption'', ''hello''),
                   (''creation_logger_session_id'', ''session-1''), (''multi_sharing'', ''1'')]],
       uuids_drawn = 5\<rparr>)"
proof -
  have env: "respond example_env tr r = Inr (Some example_answer)"
    "session_id example_env = ''session-1''" "time_now example_env = ''1600000000.0''" for tr r
    by (simp_all add: example_env_def)
  have obj: "thumbnail_path example_video = StrPath ''thumb.jpg''"
    "as_dict example_video = [(''caption'', ''hello''), (''path'', ''video.mp4''),
                 (''thumbnail_path'', ''thumb.jpg''),
                 (''creation_logger_session_id'', ''session-1''), (''multi_sharing'', ''1''),
                 (''audio_muted'', ''0''), (''height'', ''720''), (''width'', ''1280''),
                 (''quality_info'', ''q''), (''pdg_hash_info'', ''p'')]"
    by (simp_all add: example_video_def)
  have three: "str_int 3 = ''3''"
    by (simp add: str_int_def str_nat.simps digit_char_def)
  show ?thesis
    by (simp add: post_video_def example_video_upload upload_video_thumbnail_eq Let_def
          example_files_simps get_image_type_examples obj env example_uuids example_uuids_later three
          finish_video_upload_eq configure_video_eq finish_removed_def configure_removed_def
          dict_keys_def)
qed

theorem post_video_order_witness:
  "fst (post_video example_env example_video world0) = Inr ()
   \<and> (\<exists>thumb gots.
         length gots = length (bytes_from_file (replicate 1025 (7::byte)) 1024)
         \<and> trace (snd (post_video example_env example_video world0)) =
             start_request example_env example_video ''uuid-0''
             # concat (map (transfer_pair example_env [(''stream_id'', PStr ''stream-1'')] 1 0
                             (bytes_from_file (replicate 1025 7) 1024) gots)
                         [0 ..< length (bytes_from_file (replicate 1025 (7::byte)) 1024)])
             @ [end_request ''uuid-3'' [(''stream_id'', PStr ''stream-1'')],
                upload_image_request example_env thumb ''uuid-4'' (str_int (int (length thumb)))
                  ''uuid-3'' ''image/jpg'' ''session-1'' ''1600000000.0'' (Some 0),
                upload_finish_request [(''caption'', ''hello''), (''audio_muted'', ''0'')],
                upload_finish_request [(''caption'', ''hello''),
                  (''creation_logger_session_id'', ''session-1''), (''multi_sharing'', ''1'')]])"
proof -
  obtain w' where run: "post_video example_env example_video world0 = (Inr (), w')"
    using example_video_published by blast
  have env: "respond example_env tr r = Inr (Some example_answer)"
    "session_id example_env = ''session-1''" "time_now example_env = ''1600000000.0''"
    "files example_env ''video.mp4'' = Some (replicate 1025 7)" for tr r
    by (simp_all add: example_env_def example_files_def)
  have obj: "thumbnail_path example_video = StrPath ''thumb.jpg''"
    "path example_video = ''video.mp4''"
    "filter (\<lambda>kv. fst kv \<notin> set finish_removed) (as_dict example_video) =
       [(''caption'', ''hello''), (''audio_muted'', ''0'')]"
    "filter (\<lambda>kv. fst kv \<notin> set configure_removed) (as_dict example_video) =
       [(''caption'', ''hello''), (''creation_logger_session_id'', ''session-1''),
        (''multi_sharing'', ''1'')]"
    by (simp_all add: example_video_def finish_removed_def configure_removed_def)
  have n: "length (bytes_from_file (replicate 1025 (7::byte)) 1024) = 2"
    by (simp add: example_chunks)
  from run have ok: "fst (post_video example_env example_video world0) = Inr ()" by simp
  from post_video_order [of example_env example_video world0, THEN conjunct2, THEN mp, OF ok]
  obtain j sid content thumb gots
    where j: "respond example_env (trace world0)
                (start_request example_env example_video (uuid4 example_env (uuids_drawn world0)))
              = Inr (Some j)"
      and sid: "py_getitem j ''stream_id'' = Inr sid"
      and content: "files example_env (path example_video) = Some content"
      and gots: "length gots = length (bytes_from_file content 1024)"
      and tr: "trace (snd (post_video example_env example_video world0)) =
             trace world0
             @ start_request example_env example_video (uuid4 example_env (uuids_drawn world0))
             # concat (map (transfer_pair example_env [(''stream_id'', sid)]
                             (Suc (uuids_drawn world0)) 0 (bytes_from_file content 1024) gots)
                         [0 ..< length (bytes_from_file content 1024)])
             @ [end_request
                  (uuid4 example_env (Suc (uuids_drawn world0)
                     + length (bytes_from_file content 1024)))
                  [(''stream_id'', sid)],
                upload_image_request example_env thumb
                  (uuid4 example_env (Suc (Suc (uuids_drawn world0))
                     + length (bytes_from_file content 1024)))
                  (str_int (int (length thumb)))
                  (uuid4 example_env (Suc (uuids_drawn world0)
                     + length (bytes_from_file content 1024)))
                  (''image/'' @ get_image_type (thumbnail_path example_video))
                  (session_id example_env) (time_now example_env) (Some 0),
                upload_finish_request
                  (filter (\<lambda>kv. fst kv \<notin> set finish_removed) (as_dict example_video)),
                upload_finish_request
                  (filter (\<lambda>kv. fst kv \<notin> set configure_removed) (as_dict example_video))]"
    by blast
  from content have c: "content = replicate 1025 7" by (simp add: obj env)
  from j sid have s: "sid = PStr ''stream-1''"
    by (auto simp: env example_answer_def)
  have "length gots = length (bytes_from_file (replicate 1025 (7::byte)) 1024)
         \<and> trace (snd (post_video example_env example_video world0)) =
             start_request example_env example_video ''uuid-0''
             # concat (map (transfer_pair example_env [(''stream_id'', PStr ''stream-1'')] 1 0
                             (bytes_from_file (replicate 1025 7) 1024) gots)
                         [0 ..< length (bytes_from_file (replicate 1025 (7::byte)) 1024)])
             @ [end_request ''uuid-3'' [(''stream_id'', PStr ''stream-1'')],
                upload_image_request example_env thumb ''uuid-4'' (str_int (int (length thumb)))
                  ''uuid-3'' ''image/jpg'' ''session-1'' ''1600000000.0'' (Some 0),
                upload_finish_request [(''caption'', ''hello''), (''audio_muted'', ''0'')],
                upload_finish_request [(''caption'', ''hello''),
                  (''creation_logger_session_id'', ''session-1''), (''multi_sharing'', ''1'')]]"
    using gots tr
    unfolding c s n
    by (simp add: world0_def example_uuids example_uuids_later obj env get_image_type_examples)
  then show ?thesis using run by auto
qed

text \<open>
  Against C4 as it was stated: when the provider answers the transfer GET requests with a
  \<open>stream_id\<close> of its own, the transfer POST requests carry that value, not the one of
  the Start response.
\<close>

theorem post_video_order_counterexample:
  "fst (post_video overriding_env example_video world0) = Inr ()
   \<and> map (\<lambda>r. map_option (\<lambda>hs. map_of hs ''stream_id'') (headers r))
         (trace (snd (post_video overriding_env example_video world0))) =
       [Some None,
        Some (Some (PStr ''stream-1'')), Some (Some (PStr ''other'')),
        Some (Some (PStr ''stream-1'')), Some (Some (PStr ''other'')),
        Some (Some (PStr ''stream-1'')),
        Some None, None, None]"
proof -
  have env: "respond overriding_env tr r =
               (if meth r = GET then Inr (Some (PDict [(''stream_id'', PStr ''other'')]))
                else Inr (Some example_answer))"
    "files overriding_env = example_files"
    "uuid4 overriding_env = uuid4 example_env"
    "session_id overriding_env = ''session-1''" "time_now overriding_env = ''1600000000.0''" for tr r
    by (simp_all add: overriding_env_def example_env_def)
  have obj: "thumbnail_path example_video = StrPath ''thumb.jpg''"
    "path example_video = ''video.mp4''"
    "as_dict example_video = [(''caption'', ''hello''), (''path'', ''video.mp4''),
                 (''thumbnail_path'', ''thumb.jpg''),
                 (''creation_logger_session_id'', ''session-1''), (''multi_sharing'', ''1''),
                 (''audio_muted'', ''0''), (''height'', ''720''), (''width'', ''1280''),
                 (''quality_info'', ''q''), (''pdg_hash_info'', ''p'')]"
    by (simp_all add: example_video_def)
  have meths: "meth (start_request e v u) = POST" "meth (transfer_get nm hs) = GET"
    "meth (transfer_post nm hs got off chunk) = POST" "meth (end_request nm hs) = POST"
    "meth (upload_image_request e c a b d f g h q) = POST"
    "meth (upload_finish_request p) = POST" for e v u nm hs got off chunk c a b d f g h q p
    by (simp_all add: start_request_def transfer_get_def transfer_post_def end_request_def
          upload_image_request_def upload_finish_request_def)
  have chunks: "upload_video_in_chunks overriding_env example_video world0 =
     (Inr [(''stream_id'', PStr ''stream-1'')],
      \<lparr>trace = [start_request overriding_env example_video ''uuid-0'',
                 transfer_get ''uuid-1'' [(''stream_id'', PStr ''stream-1'')],
                 transfer_post ''uuid-1'' [(''stream_id'', PStr ''stream-1'')]
                   [(''stream_id'', PStr ''other'')] 0 (replicate 1024 7),
                 transfer_get ''uuid-2'' [(''stream_id'', PStr ''stream-1'')],
                 transfer_post ''uuid-2'' [(''stream_id'', PStr ''stream-1'')]
                   [(''stream_id'', PStr ''other'')] 1024 [7]],
       uuids_drawn = 3\<rparr>)"
    by (simp add: upload_video_in_chunks_def gen_uuid_def request_def env obj and_then_def
          resp_json_def example_answer_def example_chunks world0_def example_uuids Let_def
          meths example_files_def)
  have three: "str_int 3 = ''3''"
    by (simp add: str_int_def str_nat.simps digit_char_def)
  have run: "post_video overriding_env example_video world0 =
     (Inr (),
      \<lparr>trace = [start_request overriding_env example_video ''uuid-0'',
                 transfer_get ''uuid-1'' [(''stream_id'', PStr ''stream-1'')],
                 transfer_post ''uuid-1'' [(''stream_id'', PStr ''stream-1'')]
                   [(''stream_id'', PStr ''other'')] 0 (replicate 1024 7),
                 transfer_get ''uuid-2'' [(''stream_id'', PStr ''stream-1'')],
                 transfer_post ''uuid-2'' [(''stream_id'', PStr ''stream-1'')]
                   [(''stream_id'', PStr ''other'')] 1024 [7],
                 end_request ''uuid-3'' [(''stream_id'', PStr ''stream-1'')],
                 upload_image_request overriding_env [1, 2, 3] ''uuid-4'' ''3'' ''uuid-3''
                   ''image/jpg'' ''session-1'' ''1600000000.0'' (Some 0),
                 upload_finish_request [(''caption'', ''hello''), (''audio_muted'', ''0'')],
                 upload_finish_request [(''caption'', ''hello''),
                   (''creation_logger_session_id'', ''session-1''), (''multi_sharing'', ''1'')]],
       uuids_drawn = 5\<rparr>)"
    by (simp add: post_video_def chunks upload_video_thumbnail_eq Let_def
          example_files_def get_image_type_examples obj env example_uuids example_uuids_later three
          finish_video_upload_eq configure_video_eq finish_removed_def configure_removed_def
          dict_keys_def meths)
  show ?thesis
    unfolding run
    by (simp add: start_request_def transfer_get_def transfer_post_def end_request_def
          upload_image_request_def upload_finish_request_def upload_image_headers_def
          dict_merge_def)
qed

end
